theory Spec2Isabelle
  imports Main "HOL-Library.Word" "HOL-Library.AList" "HOL-Library.Multiset"
begin

section \<open>The pacm-v8 native shim: data model\<close>

text \<open>
  The shim is a C ABI over the V8 engine. A \<^verbatim>\<open>const char*\<close> is a \<open>string option\<close>
  (\<open>None\<close> is the null pointer), an out-parameter \<^verbatim>\<open>char**\<close> is an \<open>out_slot\<close>: \<open>None\<close>
  when the caller passed no slot, \<open>Some p\<close> for a slot that holds the pointer \<open>p\<close>.
  An opaque handle is the wrapper it points to, or \<open>None\<close> for the null handle; every
  operation returns the wrapper as it is after the call.
\<close>

type_synonym cstring = "string option"
type_synonym out_slot = "cstring option"

text \<open>
  \<^verbatim>\<open>v8::TryCatch\<close> as \<^verbatim>\<open>capture_exception\<close> reads it: \<open>Exception\<close> is the result of
  \<^verbatim>\<open>v8::String::Utf8Value(isolate, try_catch.Exception())\<close> (\<open>None\<close> when \<^verbatim>\<open>*exception\<close> is
  null, as for a thrown value that cannot be converted to a string), \<open>Message\<close> is
  \<open>None\<close> for an empty \<^verbatim>\<open>try_catch.Message()\<close> and \<open>Some d\<close> with \<open>d\<close> the
  \<^verbatim>\<open>Utf8Value\<close> of \<^verbatim>\<open>message->Get()\<close> otherwise.
\<close>

record TryCatch =
  HasCaught :: bool
  Exception :: "string option"
  Message :: "string option option"

text \<open>
  A \<^verbatim>\<open>v8::Local<v8::Value>\<close> as the shim tests it. An object is a handle: the number
  names the object in the engine's heap, and what the object holds is the engine's to
  say. \<open>JFunction\<close> is an object of which \<^verbatim>\<open>IsFunction()\<close> holds, \<open>JObject\<close> any other
  object; \<open>JOther\<close> stands for the values that are none of undefined, null, a number,
  a string or an object (booleans, symbols, big integers). A number is its 64 bits:
  the shim only hands a \<^verbatim>\<open>double\<close> on.
\<close>

datatype jsval = JUndefined | JNull | JNumber "64 word" | JString string
  | JObject nat | JFunction nat | JOther nat

definition IsObject :: "jsval \<Rightarrow> bool" where
  "IsObject v = (case v of JObject n \<Rightarrow> True | JFunction n \<Rightarrow> True | _ \<Rightarrow> False)"

definition IsFunction :: "jsval \<Rightarrow> bool" where
  "IsFunction v = (case v of JFunction n \<Rightarrow> True | _ \<Rightarrow> False)"

text \<open>
  What the engine runs when a function is called: the shim's trampoline, with the
  \<^verbatim>\<open>NativeCallbackData*\<close> of the function's \<^verbatim>\<open>v8::External\<close> (\<open>None\<close> for an empty
  handle or a null pointer), or code of the script's own.
\<close>

record NativeCallbackData =
  function_id :: "64 word"

datatype callable = NativeFn "NativeCallbackData option" | ScriptFn

text \<open>
  What the shim asks of the engine and of the host, in call order: compiling a source,
  binding and running a unit, \<^verbatim>\<open>v8::Object::New\<close> with the object it returned,
  \<^verbatim>\<open>Object::Set\<close> with the object, the key and the value, the insertion into the
  registry of callbacks, and the two calls of the host collaborator.
\<close>

datatype event =
    EvCompile string
  | EvBind string
  | EvRun string
  | EvNew jsval
  | EvSet jsval string jsval
  | EvRegistryInsert string "64 word"
  | HostDrop "64 word"
  | HostInvoke "64 word" "cstring list"

text \<open>
  The engine and the host collaborator are outside the repository; the shim is modelled
  over any behaviour of theirs. \<open>'h\<close> is the state of the engine's heap as a context
  sees it, and every call that can run code of the script returns the heap it leaves.

  \<^item> \<open>NewContext\<close> is the heap of the context \<^verbatim>\<open>v8::Context::New\<close> makes, and
    \<open>Global h\<close> the global object \<^verbatim>\<open>ctx->Global()\<close>.
  \<^item> \<open>Compile s\<close> is \<open>None\<close> when \<^verbatim>\<open>v8::Script::Compile\<close> yields a script and
    \<open>Some tc\<close> when it fails and leaves \<open>tc\<close> in the \<^verbatim>\<open>TryCatch\<close>.
  \<^item> \<open>RunScript s h\<close> runs the unit compiled from \<open>s\<close>; \<open>CallFunction f args h\<close> is
    \<^verbatim>\<open>Function::Call\<close> on a function whose code is the script's. \<open>Inl tc\<close> is the empty
    \<^verbatim>\<open>MaybeLocal\<close>, with the \<^verbatim>\<open>TryCatch\<close> as \<^verbatim>\<open>capture_exception\<close> then reads it and
    the heap as that reading leaves it.
  \<^item> \<open>ObjectNew h\<close> is \<^verbatim>\<open>v8::Object::New\<close>: the new object and the heap with it.
  \<^item> \<open>ObjectGet h obj key\<close> is \<^verbatim>\<open>obj->Get(ctx, key)\<close>: \<open>Inl tc\<close> when \<^verbatim>\<open>ToLocal\<close>
    fails, \<open>Inr v\<close> with the value otherwise.
  \<^item> \<open>ObjectSet h obj key v\<close> is \<^verbatim>\<open>obj->Set(ctx, key, v).FromMaybe(false)\<close>: \<open>None\<close>
    when it is true, \<open>Some tc\<close> when it is false, with the \<^verbatim>\<open>TryCatch\<close> as it then is.
    Whether a store that is reported as done has changed the object is the engine's
    to say, through the heap it returns.
  \<^item> \<open>GetFunction h d\<close> is \<^verbatim>\<open>FunctionTemplate::New\<close> with the trampoline and the
    metadata \<open>d\<close>, followed by \<^verbatim>\<open>GetFunction(ctx)\<close>: the new function, or \<open>Inl tc\<close>;
    \<open>SetName\<close> is \<^verbatim>\<open>Function::SetName\<close>; \<open>Callee h f\<close> is what a call of \<open>f\<close> runs.
  \<^item> \<open>Utf8Value h v\<close> is the engine's string conversion \<^verbatim>\<open>v8::String::Utf8Value\<close>,
    \<open>None\<close> when \<^verbatim>\<open>*utf8\<close> is null.
  \<^item> \<open>UncaughtMessage\<close> is the message the engine attaches to a string thrown by a
    native callback; \<open>malloc\<close> tells whether \<^verbatim>\<open>std::malloc\<close> returns a buffer;
    \<open>host_function_invoke\<close> is \<^verbatim>\<open>pacm_v8__host_function_invoke\<close>, returning the status
    and the two out-pointers.

  While the engine runs a script or a function nothing calls back into the shim's
  entry points: a run changes the heap, not the cache or the registry.
\<close>

record 'h engine =
  NewContext :: "'h"
  Global :: "'h \<Rightarrow> nat"
  Compile :: "string \<Rightarrow> TryCatch option"
  RunScript :: "string \<Rightarrow> 'h \<Rightarrow> (TryCatch + jsval) \<times> 'h"
  CallFunction :: "jsval \<Rightarrow> jsval list \<Rightarrow> 'h \<Rightarrow> (TryCatch + jsval) \<times> 'h"
  ObjectNew :: "'h \<Rightarrow> nat \<times> 'h"
  ObjectGet :: "'h \<Rightarrow> jsval \<Rightarrow> string \<Rightarrow> (TryCatch + jsval) \<times> 'h"
  ObjectSet :: "'h \<Rightarrow> jsval \<Rightarrow> string \<Rightarrow> jsval \<Rightarrow> TryCatch option \<times> 'h"
  GetFunction :: "'h \<Rightarrow> NativeCallbackData \<Rightarrow> (TryCatch + nat) \<times> 'h"
  SetName :: "'h \<Rightarrow> jsval \<Rightarrow> string \<Rightarrow> 'h"
  Callee :: "'h \<Rightarrow> jsval \<Rightarrow> callable"
  Utf8Value :: "'h \<Rightarrow> jsval \<Rightarrow> string option \<times> 'h"
  UncaughtMessage :: "string \<Rightarrow> string option option"
  malloc :: bool
  host_function_invoke :: "64 word \<Rightarrow> cstring list \<Rightarrow> int \<times> cstring \<times> cstring"

record IsolateWrapper =
  isolate :: "nat option"
  allocator :: "nat option"

datatype UnboundScript = Unbound string

text \<open>
  The two \<^verbatim>\<open>std::unordered_map\<close>s are association lists with distinct keys; the list
  order stands for one iteration order, and the theorems about disposal are stated on
  multisets, so that they hold for every order.
  \<open>context\<close> is the heap behind the \<^verbatim>\<open>v8::Global<v8::Context>\<close>. A cached unit is
  never a null pointer (\<^verbatim>\<open>shim_context_eval\<close> dereferences it unchecked); a registry
  entry may be one, as both places that read it check.
\<close>

record 'h ContextWrapper =
  isolate_wrapper :: "IsolateWrapper option"
  "context" :: "'h"
  cache :: "(string \<times> UnboundScript) list"
  native_callbacks :: "(string \<times> NativeCallbackData option) list"

record ScriptWrapper =
  script_isolate_wrapper :: IsolateWrapper
  script :: "UnboundScript option"
  cache_key :: string

definition kMaxCacheableSourceLength :: nat where
  "kMaxCacheableSourceLength = 64 * 1024"

text \<open>The member function \<^verbatim>\<open>ContextWrapper::isolate()\<close>.\<close>

definition ContextWrapper_isolate :: "'h ContextWrapper \<Rightarrow> nat option" where
  "ContextWrapper_isolate c = (case isolate_wrapper c of None \<Rightarrow> None | Some w \<Rightarrow> isolate w)"

subsection \<open>\<^verbatim>\<open>std::unordered_map\<close> operations\<close>

definition um_find :: "('k \<times> 'v) list \<Rightarrow> 'k \<Rightarrow> 'v option" where
  "um_find m k = map_of m k"

definition um_emplace :: "'k \<Rightarrow> 'v \<Rightarrow> ('k \<times> 'v) list \<Rightarrow> ('k \<times> 'v) list" where
  "um_emplace k v m = (case map_of m k of None \<Rightarrow> m @ [(k, v)] | Some _ \<Rightarrow> m)"

definition um_insert_or_assign :: "'k \<Rightarrow> 'v \<Rightarrow> ('k \<times> 'v) list \<Rightarrow> ('k \<times> 'v) list" where
  "um_insert_or_assign k v m = AList.update k v m"

definition um_erase :: "'k \<Rightarrow> ('k \<times> 'v) list \<Rightarrow> ('k \<times> 'v) list" where
  "um_erase k m = AList.delete k m"

section \<open>util.cc\<close>

text \<open>
  \<open>copy_string buffer data len\<close>: \<open>buffer\<close> tells whether \<^verbatim>\<open>std::malloc\<close> returned one.
  The result is the bytes copied; the terminating NUL is not part of the string.
\<close>

definition copy_string :: "bool \<Rightarrow> cstring \<Rightarrow> nat \<Rightarrow> cstring" where
  "copy_string buffer data len =
     (let len = (if data = None then 0 else len) in
      if \<not> buffer then None
      else Some (case data of None \<Rightarrow> [] | Some s \<Rightarrow> take len s))"

definition copy_std_string :: "bool \<Rightarrow> string \<Rightarrow> cstring" where
  "copy_std_string buffer v = copy_string buffer (Some v) (length v)"

text \<open>The string, and the heap as the conversion leaves it.\<close>

definition value_to_utf8 :: "'h engine \<Rightarrow> nat option \<Rightarrow> 'h \<Rightarrow> jsval option \<Rightarrow> cstring \<times> 'h" where
  "value_to_utf8 e isol h v =
     (case (isol, v) of
        (Some _, Some w) \<Rightarrow>
          (case Utf8Value e h w of
             (Some u, h1) \<Rightarrow> (copy_string (malloc e) (Some u) (length u), h1)
           | (None, h1) \<Rightarrow> (copy_std_string (malloc e) [], h1))
      | _ \<Rightarrow> (copy_std_string (malloc e) [], h))"

definition assign_error :: "'h engine \<Rightarrow> out_slot \<Rightarrow> string \<Rightarrow> out_slot" where
  "assign_error e slot message =
     (case slot of None \<Rightarrow> None | Some _ \<Rightarrow> Some (copy_std_string (malloc e) message))"

definition newline :: string where
  "newline = [CHR 0x0A]"

definition capture_exception :: "nat option \<Rightarrow> TryCatch \<Rightarrow> bool \<times> string" where
  "capture_exception isol try_catch =
     (if isol = None then (False, ''unknown V8 exception'')
      else if HasCaught try_catch then
        (let message_out = (case Exception try_catch of
                              Some ex \<Rightarrow> ex
                            | None \<Rightarrow> ''unknown V8 exception'');
             message_out = (case Message try_catch of
                              None \<Rightarrow> message_out
                            | Some None \<Rightarrow> message_out
                            | Some (Some detailed) \<Rightarrow> message_out @ newline @ detailed)
         in (True, message_out))
      else (False, ''V8 execution failed''))"

definition ensure_isolate :: "IsolateWrapper option \<Rightarrow> string + IsolateWrapper" where
  "ensure_isolate h =
     (case h of
        None \<Rightarrow> Inl ''invalid isolate handle''
      | Some w \<Rightarrow> if isolate w = None then Inl ''invalid isolate handle'' else Inr w)"

section \<open>Engine initialiser\<close>

text \<open>
  \<^verbatim>\<open>std::call_once\<close> on \<^verbatim>\<open>g_v8_once\<close>: when the flag is set the callable is not run;
  otherwise it runs, and the flag is set only if it returns. When it throws, the
  exception leaves \<^verbatim>\<open>call_once\<close> and the flag stays unset (an exceptional call, ISO C++
  [thread.once.callonce]), so the next call runs the callable again.
  \<open>setup_runs\<close> counts the executions of the callable; it is not program state.
\<close>

record InitEnv =
  InitializeICU :: "string \<Rightarrow> bool"
  InitializeICUDefaultLocation :: bool
  platform_throws :: bool

record Process =
  g_v8_once :: bool
  g_platform :: bool
  setup_runs :: nat

definition init_process :: Process where
  "init_process = \<lparr>g_v8_once = False, g_platform = False, setup_runs = 0\<rparr>"

text \<open>The lambda handed to \<^verbatim>\<open>call_once\<close>; the Boolean tells whether it threw.\<close>

definition setup_body :: "InitEnv \<Rightarrow> cstring \<Rightarrow> Process \<Rightarrow> Process \<times> bool" where
  "setup_body env icu_data_path p =
     (let p = p\<lparr>setup_runs := Suc (setup_runs p)\<rparr>;
          icu_ready = (case icu_data_path of
                         Some (c # cs) \<Rightarrow> InitializeICU env (c # cs)
                       | _ \<Rightarrow> InitializeICUDefaultLocation env)
      in if \<not> icu_ready then (p, True)
         else let p = p\<lparr>g_platform := True\<rparr>
              in if platform_throws env then (p, True) else (p, False))"

definition call_once :: "(Process \<Rightarrow> Process \<times> bool) \<Rightarrow> Process \<Rightarrow> Process \<times> bool" where
  "call_once f p =
     (if g_v8_once p then (p, False)
      else (case f p of
              (p', True) \<Rightarrow> (p', True)
            | (p', False) \<Rightarrow> (p'\<lparr>g_v8_once := True\<rparr>, False)))"

definition shim_v8_initialize :: "InitEnv \<Rightarrow> cstring \<Rightarrow> Process \<Rightarrow> Process \<times> int" where
  "shim_v8_initialize env icu_data_path p =
     (case call_once (setup_body env icu_data_path) p of
        (p', True) \<Rightarrow> (p', 0)
      | (p', False) \<Rightarrow> (p', 1))"

text \<open>A sequence of calls, each with its own environment and path; the statuses in order.\<close>

fun initialize_all :: "(InitEnv \<times> cstring) list \<Rightarrow> Process \<Rightarrow> Process \<times> int list" where
  "initialize_all [] p = (p, [])"
| "initialize_all ((env, path) # cs) p =
     (case shim_v8_initialize env path p of
        (p', r) \<Rightarrow> (case initialize_all cs p' of (p'', rs) \<Rightarrow> (p'', r # rs)))"

definition icu_only_good :: InitEnv where
  "icu_only_good = \<lparr>InitializeICU = (\<lambda>path. path = ''good.dat''),
                    InitializeICUDefaultLocation = False, platform_throws = False\<rparr>"

section \<open>context.cc\<close>

text \<open>
  \<^verbatim>\<open>std::string_view::find(ch, pos)\<close>: the first index from \<open>pos\<close> on that holds
  \<open>ch\<close>, or \<open>None\<close> for \<^verbatim>\<open>npos\<close>.
\<close>

fun find_first :: "char \<Rightarrow> string \<Rightarrow> nat option" where
  "find_first c [] = None"
| "find_first c (x # xs) = (if x = c then Some 0 else map_option Suc (find_first c xs))"

definition find_from :: "string \<Rightarrow> char \<Rightarrow> nat \<Rightarrow> nat option" where
  "find_from s c start = map_option (\<lambda>i. start + i) (find_first c (drop start s))"

lemma find_from_ge: "Some d = find_from s c start \<Longrightarrow> start \<le> d"
  by (cases "find_first c (drop start s)") (auto simp: find_from_def)

text \<open>
  The test \<^verbatim>\<open>!current->Get(ctx, key).ToLocal(&next) || next->IsUndefined() || next->IsNull()\<close>
  of \<^verbatim>\<open>ensure_property_path\<close>, and the value of \<^verbatim>\<open>next\<close> where the test fails.
\<close>

definition absent :: "TryCatch + jsval \<Rightarrow> bool" where
  "absent got = (case got of Inl tc \<Rightarrow> True | Inr next \<Rightarrow> next = JUndefined \<or> next = JNull)"

definition next_value :: "TryCatch + jsval \<Rightarrow> jsval" where
  "next_value got = (case got of Inl tc \<Rightarrow> JUndefined | Inr next \<Rightarrow> next)"

text \<open>
  The loop of \<^verbatim>\<open>ensure_property_path\<close>, on the index \<^verbatim>\<open>start\<close>; \<open>current\<close> is the
  handle the walk stands on. The result is the error text, or \<^verbatim>\<open>target_out\<close> and
  \<^verbatim>\<open>property_out\<close>, together with the heap as the walk left it and the objects it
  made and the stores it asked for, in order. \<^verbatim>\<open>current = fresh\<close> goes on with the new
  object itself, whatever the store before it has done.
\<close>

function ensure_property_path_loop ::
  "'h engine \<Rightarrow> string \<Rightarrow> nat \<Rightarrow> 'h \<Rightarrow> jsval \<Rightarrow> event list
     \<Rightarrow> (string + jsval \<times> string) \<times> 'h \<times> event list" where
  "ensure_property_path_loop e path start h current evs =
     (if start < length path then
        let dot = find_from path (CHR ''.'') start;
            segment = (case dot of
                         None \<Rightarrow> drop start path
                       | Some d \<Rightarrow> take (d - start) (drop start path))
        in
        if segment = [] then (Inl ''property path contained an empty segment'', h, evs)
        else
          (case dot of
             None \<Rightarrow> (Inr (current, segment), h, evs)
           | Some d \<Rightarrow>
               (case ObjectGet e h current segment of
                  (got, h1) \<Rightarrow>
                    if absent got then
                      (case ObjectNew e h1 of
                         (n, h2) \<Rightarrow>
                           (case ObjectSet e h2 current segment (JObject n) of
                              (Some tc, h3) \<Rightarrow>
                                (Inl ''failed to assign intermediate object on property path'',
                                 h3, evs @ [EvNew (JObject n), EvSet current segment (JObject n)])
                            | (None, h3) \<Rightarrow>
                                ensure_property_path_loop e path (d + 1) h3 (JObject n)
                                  (evs @ [EvNew (JObject n), EvSet current segment (JObject n)])))
                    else if \<not> IsObject (next_value got) then
                      (Inl ''property path conflicts with existing non-object value'', h1, evs)
                    else ensure_property_path_loop e path (d + 1) h1 (next_value got) evs))
      else (Inl ''property name was empty'', h, evs))"
  by pat_completeness auto
termination
  apply (relation "measure (\<lambda>(e, path, start, h, current, evs). length path - start)")
    apply simp
   apply (auto dest: find_from_ge)
  done

definition ensure_property_path ::
  "'h engine \<Rightarrow> 'h \<Rightarrow> string \<Rightarrow> (string + jsval \<times> string) \<times> 'h \<times> event list" where
  "ensure_property_path e h path =
     (if path = [] then (Inl ''property name was empty'', h, [])
      else ensure_property_path_loop e path 0 h (JObject (Global e h)) [])"

definition dispose_native_callbacks :: "'h ContextWrapper \<Rightarrow> event list \<times> 'h ContextWrapper" where
  "dispose_native_callbacks c =
     (concat (map (\<lambda>entry. case snd entry of
                              Some d \<Rightarrow> [HostDrop (function_id d)]
                            | None \<Rightarrow> [])
                  (native_callbacks c)),
      c\<lparr>native_callbacks := []\<rparr>)"

text \<open>
  The loop of \<^verbatim>\<open>native_function_trampoline\<close> that converts the arguments, in order.
\<close>

fun trampoline_arguments ::
  "'h engine \<Rightarrow> nat option \<Rightarrow> 'h \<Rightarrow> jsval list \<Rightarrow> cstring list \<times> 'h" where
  "trampoline_arguments e isol h [] = ([], h)"
| "trampoline_arguments e isol h (a # as) =
     (case value_to_utf8 e isol h (Some a) of
        (s, h1) \<Rightarrow>
          (case trampoline_arguments e isol h1 as of (ss, h2) \<Rightarrow> (s # ss, h2)))"

text \<open>
  \<^verbatim>\<open>native_function_trampoline\<close>, given the \<^verbatim>\<open>NativeCallbackData*\<close> of \<^verbatim>\<open>info.Data()\<close>
  (\<open>None\<close> for an empty handle or a null pointer) and the call's arguments. \<open>Inl m\<close>
  is \<^verbatim>\<open>isolate->ThrowException\<close> of the string \<open>m\<close>, \<open>Inr v\<close> the return value.
\<close>

definition native_function_trampoline ::
  "'h engine \<Rightarrow> nat option \<Rightarrow> 'h \<Rightarrow> NativeCallbackData option \<Rightarrow> jsval list
     \<Rightarrow> (string + jsval) \<times> event list \<times> 'h" where
  "native_function_trampoline e isol h data info =
     (case data of
        None \<Rightarrow> (Inl ''host function metadata missing'', [], h)
      | Some d \<Rightarrow>
          (case trampoline_arguments e isol h info of
             (arguments, h1) \<Rightarrow>
               (case host_function_invoke e (function_id d) arguments of
                  (st, result_ptr, error_ptr) \<Rightarrow>
                    (if st = 0 then
                       Inl (case error_ptr of
                              Some m \<Rightarrow> m
                            | None \<Rightarrow> ''host function invocation failed'')
                     else (case result_ptr of
                             Some r \<Rightarrow> Inr (JString r)
                           | None \<Rightarrow> Inr JUndefined),
                     [HostInvoke (function_id d) arguments], h1))))"

definition ensure_context :: "'h ContextWrapper option \<Rightarrow> string + 'h ContextWrapper" where
  "ensure_context h =
     (case h of
        None \<Rightarrow> Inl ''invalid V8 context handle''
      | Some c \<Rightarrow>
          if ContextWrapper_isolate c = None then Inl ''invalid V8 context handle''
          else Inr c)"

text \<open>
  What an operation leaves behind: the status it returns, the two out-parameters, the
  context the handle points to, and what it asked of the engine and the host.
\<close>

record 'h api_result =
  status :: int
  result_out :: out_slot
  error_out :: out_slot
  context_after :: "'h ContextWrapper option"
  events :: "event list"

text \<open>\<^verbatim>\<open>if (slot) { *slot = nullptr; }\<close>\<close>

definition clear_slot :: "out_slot \<Rightarrow> out_slot" where
  "clear_slot slot = (case slot of None \<Rightarrow> None | Some p \<Rightarrow> Some None)"

text \<open>\<^verbatim>\<open>if (result_out) { *result_out = value_to_utf8(isolate, result); }\<close>\<close>

definition set_result ::
  "'h engine \<Rightarrow> nat option \<Rightarrow> out_slot \<Rightarrow> jsval \<Rightarrow> 'h \<Rightarrow> out_slot \<times> 'h" where
  "set_result e isol slot v h =
     (case slot of
        None \<Rightarrow> (None, h)
      | Some p \<Rightarrow> (case value_to_utf8 e isol h (Some v) of (s, h1) \<Rightarrow> (Some s, h1)))"

definition failure :: "'h engine \<Rightarrow> out_slot \<Rightarrow> out_slot \<Rightarrow> string \<Rightarrow> 'h ContextWrapper option
    \<Rightarrow> event list \<Rightarrow> 'h api_result" where
  "failure e result_slot error_slot message h evs =
     \<lparr>status = 0, result_out = result_slot, error_out = assign_error e error_slot message,
      context_after = h, events = evs\<rparr>"

definition shim_create_context :: "'h engine \<Rightarrow> IsolateWrapper option \<Rightarrow> 'h ContextWrapper option" where
  "shim_create_context e h =
     (case h of
        None \<Rightarrow> None
      | Some w \<Rightarrow>
          if isolate w = None then None
          else Some \<lparr>isolate_wrapper = Some w, context = NewContext e, cache = [],
                     native_callbacks = []\<rparr>)"

definition shim_dispose_context :: "'h ContextWrapper option \<Rightarrow> event list" where
  "shim_dispose_context h =
     (case h of
        None \<Rightarrow> []
      | Some c \<Rightarrow> fst (dispose_native_callbacks (c\<lparr>cache := []\<rparr>)))"

text \<open>The end of \<^verbatim>\<open>shim_context_eval\<close>, from \<^verbatim>\<open>script->Run(ctx)\<close> on.\<close>

definition eval_run ::
  "'h engine \<Rightarrow> out_slot \<Rightarrow> out_slot \<Rightarrow> string \<Rightarrow> 'h ContextWrapper \<Rightarrow> event list
     \<Rightarrow> 'h api_result" where
  "eval_run e result_slot error_slot u c evs =
     (case RunScript e u (context c) of
        (Inl tc, g) \<Rightarrow>
          failure e result_slot error_slot (snd (capture_exception (ContextWrapper_isolate c) tc))
            (Some (c\<lparr>context := g\<rparr>)) (evs @ [EvRun u])
      | (Inr v, g) \<Rightarrow>
          (case set_result e (ContextWrapper_isolate c) result_slot v g of
             (slot, g1) \<Rightarrow>
               \<lparr>status = 1, result_out = slot, error_out = error_slot,
                context_after = Some (c\<lparr>context := g1\<rparr>), events = evs @ [EvRun u]\<rparr>))"

definition shim_context_eval ::
  "'h engine \<Rightarrow> 'h ContextWrapper option \<Rightarrow> cstring \<Rightarrow> out_slot \<Rightarrow> out_slot \<Rightarrow> 'h api_result" where
  "shim_context_eval e h source result_slot error_slot =
     (let result_slot = clear_slot result_slot; error_slot = clear_slot error_slot in
      case ensure_context h of
        Inl error \<Rightarrow> failure e result_slot error_slot error h []
      | Inr c \<Rightarrow>
          (case source of
             None \<Rightarrow> failure e result_slot error_slot ''source was null'' h []
           | Some src \<Rightarrow>
               (case um_find (cache c) src of
                  Some (Unbound u) \<Rightarrow> eval_run e result_slot error_slot u c [EvBind u]
                | None \<Rightarrow>
                    (case Compile e src of
                       Some tc \<Rightarrow>
                         failure e result_slot error_slot
                           (snd (capture_exception (ContextWrapper_isolate c) tc)) h [EvCompile src]
                     | None \<Rightarrow>
                         let c1 = (if length src \<le> kMaxCacheableSourceLength
                                   then c\<lparr>cache := um_emplace src (Unbound src) (cache c)\<rparr>
                                   else c)
                         in eval_run e result_slot error_slot src c1 [EvCompile src]))))"

text \<open>
  \<^verbatim>\<open>shim_context_set_global_string\<close> and \<^verbatim>\<open>shim_context_set_global_number\<close> differ only
  in the value they build; \<open>set_global\<close> is their common body.
\<close>

definition set_global ::
  "'h engine \<Rightarrow> 'h ContextWrapper option \<Rightarrow> cstring \<Rightarrow> jsval \<Rightarrow> out_slot \<Rightarrow> 'h api_result" where
  "set_global e h name js_value error_slot =
     (let error_slot = clear_slot error_slot in
      case ensure_context h of
        Inl error \<Rightarrow> failure e None error_slot error h []
      | Inr c \<Rightarrow>
          (case name of
             None \<Rightarrow> failure e None error_slot ''property name was null'' h []
           | Some nm \<Rightarrow>
               (case ensure_property_path e (context c) nm of
                  (Inl error, g, evs) \<Rightarrow>
                    failure e None error_slot error (Some (c\<lparr>context := g\<rparr>)) evs
                | (Inr (target, key), g, evs) \<Rightarrow>
                    (case ObjectSet e g target key js_value of
                       (Some tc, g1) \<Rightarrow>
                         failure e None error_slot
                           (snd (capture_exception (ContextWrapper_isolate c) tc))
                           (Some (c\<lparr>context := g1\<rparr>)) (evs @ [EvSet target key js_value])
                     | (None, g1) \<Rightarrow>
                         \<lparr>status = 1, result_out = None, error_out = error_slot,
                          context_after = Some (c\<lparr>context := g1\<rparr>),
                          events = evs @ [EvSet target key js_value]\<rparr>))))"


definition shim_context_set_global_number ::
  "'h engine \<Rightarrow> 'h ContextWrapper option \<Rightarrow> cstring \<Rightarrow> 64 word \<Rightarrow> out_slot \<Rightarrow> 'h api_result" where
  "shim_context_set_global_number e h name v error_slot =
     set_global e h name (JNumber v) error_slot"

text \<open>
  In \<^verbatim>\<open>shim_context_register_host_function\<close> the \<open>EvSet\<close> is
  \<^verbatim>\<open>target->Set(ctx, key, function)\<close>, and \<open>EvRegistryInsert\<close> marks
  \<^verbatim>\<open>native_callbacks.emplace\<close>.
\<close>

definition shim_context_register_host_function ::
  "'h engine \<Rightarrow> 'h ContextWrapper option \<Rightarrow> cstring \<Rightarrow> 64 word \<Rightarrow> out_slot \<Rightarrow> 'h api_result" where
  "shim_context_register_host_function e h name fid error_slot =
     (let error_slot = clear_slot error_slot in
      case ensure_context h of
        Inl error \<Rightarrow> failure e None error_slot error h []
      | Inr c \<Rightarrow>
          (case name of
             None \<Rightarrow> failure e None error_slot ''function name was null'' h []
           | Some nm \<Rightarrow>
               (case ensure_property_path e (context c) nm of
                  (Inl error, g, evs) \<Rightarrow>
                    failure e None error_slot error (Some (c\<lparr>context := g\<rparr>)) evs
                | (Inr (target, key), g, evs) \<Rightarrow>
                    let data = \<lparr>function_id = fid\<rparr> in
                    (case GetFunction e g data of
                       (Inl tc, g1) \<Rightarrow>
                         failure e None error_slot
                           (snd (capture_exception (ContextWrapper_isolate c) tc))
                           (Some (c\<lparr>context := g1\<rparr>)) evs
                     | (Inr n, g1) \<Rightarrow>
                         (case ObjectSet e (SetName e g1 (JFunction n) key) target key
                                 (JFunction n) of
                            (Some tc, g3) \<Rightarrow>
                              failure e None error_slot
                                (snd (capture_exception (ContextWrapper_isolate c) tc))
                                (Some (c\<lparr>context := g3\<rparr>))
                                (evs @ [EvSet target key (JFunction n)])
                          | (None, g3) \<Rightarrow>
                              let dropped =
                                    (case um_find (native_callbacks c) nm of
                                       Some (Some old) \<Rightarrow> [HostDrop (function_id old)]
                                     | _ \<Rightarrow> []);
                                  callbacks =
                                    (case um_find (native_callbacks c) nm of
                                       Some existing \<Rightarrow> um_erase nm (native_callbacks c)
                                     | None \<Rightarrow> native_callbacks c)
                              in
                              \<lparr>status = 1, result_out = None, error_out = error_slot,
                               context_after =
                                 Some (c\<lparr>context := g3,
                                         native_callbacks := um_emplace nm (Some data) callbacks\<rparr>),
                               events = evs @ [EvSet target key (JFunction n)] @ dropped
                                          @ [EvRegistryInsert nm fid]\<rparr>)))))"

text \<open>
  The array \<^verbatim>\<open>args\<close> of \<^verbatim>\<open>arg_count\<close> entries: a null array pointer with its count, or
  the entries, each a string or null.
\<close>

datatype c_args = NullArgs nat | Args "cstring list"

definition js_args_of :: "c_args \<Rightarrow> jsval list" where
  "js_args_of a =
     (case a of
        NullArgs n \<Rightarrow> replicate n JUndefined
      | Args xs \<Rightarrow> map (\<lambda>arg. case arg of None \<Rightarrow> JUndefined | Some s \<Rightarrow> JString s) xs)"

text \<open>
  In \<^verbatim>\<open>shim_context_call_function\<close>, \<^verbatim>\<open>function->Call\<close> runs the trampoline when the
  function is one of the shim's, and the script's code otherwise; a string the
  trampoline throws reaches the \<^verbatim>\<open>TryCatch\<close> as an exception whose string form it is.
\<close>

definition shim_context_call_function ::
  "'h engine \<Rightarrow> 'h ContextWrapper option \<Rightarrow> cstring \<Rightarrow> c_args \<Rightarrow> out_slot \<Rightarrow> out_slot
     \<Rightarrow> 'h api_result" where
  "shim_context_call_function e h fn_name args result_slot error_slot =
     (let result_slot = clear_slot result_slot; error_slot = clear_slot error_slot in
      case ensure_context h of
        Inl error \<Rightarrow> failure e result_slot error_slot error h []
      | Inr c \<Rightarrow>
          (case fn_name of
             None \<Rightarrow> failure e result_slot error_slot ''function name was null'' h []
           | Some fn \<Rightarrow>
               let isol = ContextWrapper_isolate c;
                   global = JObject (Global e (context c))
               in
               (case ObjectGet e (context c) global fn of
                  (got, g) \<Rightarrow>
                    if \<not> (case got of Inl tc \<Rightarrow> False | Inr f \<Rightarrow> IsFunction f) then
                      failure e result_slot error_slot ''global function not found''
                        (Some (c\<lparr>context := g\<rparr>)) []
                    else
                      (case Callee e g (next_value got) of
                         NativeFn data \<Rightarrow>
                           (case native_function_trampoline e isol g data (js_args_of args) of
                              (Inl m, evs, g1) \<Rightarrow>
                                failure e result_slot error_slot
                                  (snd (capture_exception isol
                                         \<lparr>HasCaught = True, Exception = Some m,
                                          Message = UncaughtMessage e m\<rparr>))
                                  (Some (c\<lparr>context := g1\<rparr>)) evs
                            | (Inr v, evs, g1) \<Rightarrow>
                                (case set_result e isol result_slot v g1 of
                                   (slot, g2) \<Rightarrow>
                                     \<lparr>status = 1, result_out = slot, error_out = error_slot,
                                      context_after = Some (c\<lparr>context := g2\<rparr>),
                                      events = evs\<rparr>))
                       | ScriptFn \<Rightarrow>
                           (case CallFunction e (next_value got) (js_args_of args) g of
                              (Inl tc, g1) \<Rightarrow>
                                failure e result_slot error_slot (snd (capture_exception isol tc))
                                  (Some (c\<lparr>context := g1\<rparr>)) []
                            | (Inr v, g1) \<Rightarrow>
                                (case set_result e isol result_slot v g1 of
                                   (slot, g2) \<Rightarrow>
                                     \<lparr>status = 1, result_out = slot, error_out = error_slot,
                                      context_after = Some (c\<lparr>context := g2\<rparr>),
                                      events = []\<rparr>))))))"

section \<open>script.cc\<close>

text \<open>
  A \<^verbatim>\<open>ScriptWrapper\<close> is only made by \<^verbatim>\<open>shim_compile_script\<close>, which sets its
  \<^verbatim>\<open>isolate_wrapper\<close>; \<^verbatim>\<open>shim_script_run\<close> dereferences it unchecked, so it is not an
  option here. In \<^verbatim>\<open>shim_script_run\<close> the case of a null \<^verbatim>\<open>script\<close> is the one
  \<^verbatim>\<open>ensure_script\<close> has already refused.
\<close>

definition ensure_script :: "ScriptWrapper option \<Rightarrow> string + ScriptWrapper" where
  "ensure_script h =
     (case h of
        None \<Rightarrow> Inl ''invalid V8 script handle''
      | Some w \<Rightarrow> if script w = None then Inl ''invalid V8 script handle'' else Inr w)"

record compile_result =
  compiled_script :: "ScriptWrapper option"
  compile_error_out :: out_slot
  compile_events :: "event list"

definition shim_compile_script ::
  "'h engine \<Rightarrow> IsolateWrapper option \<Rightarrow> cstring \<Rightarrow> out_slot \<Rightarrow> compile_result" where
  "shim_compile_script e h source error_slot =
     (let error_slot = clear_slot error_slot in
      case ensure_isolate h of
        Inl error \<Rightarrow>
          \<lparr>compiled_script = None, compile_error_out = assign_error e error_slot error,
           compile_events = []\<rparr>
      | Inr w \<Rightarrow>
          (case source of
             None \<Rightarrow>
               \<lparr>compiled_script = None,
                compile_error_out = assign_error e error_slot ''source was null'',
                compile_events = []\<rparr>
           | Some src \<Rightarrow>
               (case Compile e src of
                  Some tc \<Rightarrow>
                    \<lparr>compiled_script = None,
                     compile_error_out =
                       assign_error e error_slot (snd (capture_exception (isolate w) tc)),
                     compile_events = [EvCompile src]\<rparr>
                | None \<Rightarrow>
                    \<lparr>compiled_script =
                       Some \<lparr>script_isolate_wrapper = w, script = Some (Unbound src),
                             cache_key = src\<rparr>,
                     compile_error_out = error_slot,
                     compile_events = [EvCompile src]\<rparr>)))"

definition shim_script_run ::
  "'h engine \<Rightarrow> ScriptWrapper option \<Rightarrow> 'h ContextWrapper option \<Rightarrow> out_slot \<Rightarrow> out_slot
     \<Rightarrow> 'h api_result" where
  "shim_script_run e script_handle context_handle result_slot error_slot =
     (let result_slot = clear_slot result_slot; error_slot = clear_slot error_slot in
      case ensure_script script_handle of
        Inl error \<Rightarrow> failure e result_slot error_slot error context_handle []
      | Inr sw \<Rightarrow>
          (case ensure_context context_handle of
             Inl error \<Rightarrow> failure e result_slot error_slot error context_handle []
           | Inr c \<Rightarrow>
               let isol = ContextWrapper_isolate c in
               if isol = None \<or> isol \<noteq> isolate (script_isolate_wrapper sw) then
                 failure e result_slot error_slot
                   ''script and context belong to different isolates'' context_handle []
               else
                 (case script sw of
                    None \<Rightarrow>
                      failure e result_slot error_slot ''invalid V8 script handle''
                        context_handle []
                  | Some (Unbound u) \<Rightarrow>
                      (case RunScript e u (context c) of
                         (Inl tc, g) \<Rightarrow>
                           failure e result_slot error_slot (snd (capture_exception isol tc))
                             (Some (c\<lparr>context := g\<rparr>)) [EvBind u, EvRun u]
                       | (Inr v, g) \<Rightarrow>
                           (case set_result e isol result_slot v g of
                              (slot, g1) \<Rightarrow>
                                \<lparr>status = 1, result_out = slot, error_out = error_slot,
                                 context_after =
                                   Some (c\<lparr>context := g1,
                                           cache := (if cache_key sw \<noteq> []
                                                     then um_insert_or_assign (cache_key sw)
                                                            (Unbound u) (cache c)
                                                     else cache c)\<rparr>),
                                 events = [EvBind u, EvRun u]\<rparr>)))))"

section \<open>The legacy helper and the isolate manager\<close>

text \<open>
  \<^verbatim>\<open>shim_eval\<close> passes the addresses of two local null pointers and returns one of them;
  the context after the call comes with it.
\<close>

definition slot_value :: "out_slot \<Rightarrow> cstring" where
  "slot_value slot = (case slot of None \<Rightarrow> None | Some p \<Rightarrow> p)"

definition shim_eval ::
  "'h engine \<Rightarrow> 'h ContextWrapper option \<Rightarrow> cstring \<Rightarrow> cstring \<times> 'h ContextWrapper option" where
  "shim_eval e h source =
     (let r = shim_context_eval e h source (Some None) (Some None) in
      if status r \<noteq> 0 then (slot_value (result_out r), context_after r)
      else (slot_value (error_out r), context_after r))"

text \<open>\<open>new_isolate\<close> is what \<^verbatim>\<open>v8::Isolate::New\<close> returns, \<open>alloc\<close> the new allocator.\<close>

definition shim_create_isolate :: "nat option \<Rightarrow> nat \<Rightarrow> IsolateWrapper option" where
  "shim_create_isolate new_isolate alloc =
     (case new_isolate of
        None \<Rightarrow> None
      | Some i \<Rightarrow> Some \<lparr>isolate = Some i, allocator = Some alloc\<rparr>)"

section \<open>A script calling a dotted path\<close>





section \<open>A small engine and small contexts to evaluate on\<close>

text \<open>
  A heap to run the operations on: objects by number, each extensible or not, with own
  properties that are writable or read-only, and the metadata of the functions made
  for the host. A read of a missing property gives undefined; a store to a read-only
  property, or of a new property to an object that is not extensible, is reported as
  done and changes nothing, as \<^verbatim>\<open>Object::Set\<close> does.
\<close>

datatype toy_slot = Data jsval | ReadOnly jsval

record toy_object =
  extensible :: bool
  slots :: "(string \<times> toy_slot) list"

record toy_heap =
  objects :: "(nat \<times> toy_object) list"
  natives :: "(nat \<times> NativeCallbackData) list"
  next_id :: nat

definition object_id :: "jsval \<Rightarrow> nat option" where
  "object_id v = (case v of JObject n \<Rightarrow> Some n | JFunction n \<Rightarrow> Some n | _ \<Rightarrow> None)"

definition toy_get :: "toy_heap \<Rightarrow> jsval \<Rightarrow> string \<Rightarrow> (TryCatch + jsval) \<times> toy_heap" where
  "toy_get h obj k =
     (case object_id obj of
        None \<Rightarrow> (Inr JUndefined, h)
      | Some n \<Rightarrow>
          (case map_of (objects h) n of
             None \<Rightarrow> (Inr JUndefined, h)
           | Some ob \<Rightarrow>
               (case map_of (slots ob) k of
                  None \<Rightarrow> (Inr JUndefined, h)
                | Some (Data v) \<Rightarrow> (Inr v, h)
                | Some (ReadOnly v) \<Rightarrow> (Inr v, h))))"

definition toy_set :: "toy_heap \<Rightarrow> jsval \<Rightarrow> string \<Rightarrow> jsval \<Rightarrow> TryCatch option \<times> toy_heap" where
  "toy_set h obj k v =
     (case object_id obj of
        None \<Rightarrow> (None, h)
      | Some n \<Rightarrow>
          (case map_of (objects h) n of
             None \<Rightarrow> (None, h)
           | Some ob \<Rightarrow>
               (case map_of (slots ob) k of
                  Some (ReadOnly w) \<Rightarrow> (None, h)
                | Some (Data w) \<Rightarrow>
                    (None, h\<lparr>objects := AList.update n
                                (ob\<lparr>slots := AList.update k (Data v) (slots ob)\<rparr>) (objects h)\<rparr>)
                | None \<Rightarrow>
                    if extensible ob
                    then (None, h\<lparr>objects := AList.update n
                                (ob\<lparr>slots := AList.update k (Data v) (slots ob)\<rparr>) (objects h)\<rparr>)
                    else (None, h))))"

definition toy_new :: "toy_heap \<Rightarrow> nat \<times> toy_heap" where
  "toy_new h =
     (next_id h,
      h\<lparr>objects := objects h @ [(next_id h, \<lparr>extensible = True, slots = []\<rparr>)],
        next_id := Suc (next_id h)\<rparr>)"

definition toy_function :: "toy_heap \<Rightarrow> NativeCallbackData \<Rightarrow> (TryCatch + nat) \<times> toy_heap" where
  "toy_function h d =
     (Inr (next_id h),
      h\<lparr>objects := objects h @ [(next_id h, \<lparr>extensible = True, slots = []\<rparr>)],
        natives := natives h @ [(next_id h, d)],
        next_id := Suc (next_id h)\<rparr>)"

definition toy_callee :: "toy_heap \<Rightarrow> jsval \<Rightarrow> callable" where
  "toy_callee h f =
     (case object_id f of
        None \<Rightarrow> ScriptFn
      | Some n \<Rightarrow> (case map_of (natives h) n of None \<Rightarrow> ScriptFn | Some d \<Rightarrow> NativeFn (Some d)))"

text \<open>
  The one script the heap knows by its text makes the global object non-extensible;
  any other unit completes with its own text as a string and leaves the heap alone.
\<close>

definition prevent_extensions :: string where
  "prevent_extensions = ''Object.preventExtensions(globalThis)''"

definition toy_run :: "string \<Rightarrow> toy_heap \<Rightarrow> (TryCatch + jsval) \<times> toy_heap" where
  "toy_run s h =
     (if s = prevent_extensions
      then (Inr (JObject 0),
            h\<lparr>objects := map (\<lambda>entry. if fst entry = 0
                                        then (0, (snd entry)\<lparr>extensible := False\<rparr>)
                                        else entry) (objects h)\<rparr>)
      else (Inr (JString s), h))"

text \<open>A heap whose global object, number 0, has no property.\<close>

definition empty_heap :: toy_heap where
  "empty_heap = \<lparr>objects = [(0, \<lparr>extensible = True, slots = []\<rparr>)], natives = [], next_id = 1\<rparr>"

text \<open>
  A heap whose global object has the read-only property \<^verbatim>\<open>Infinity\<close>, as the global
  object of every new context of the engine has.
\<close>

definition builtin_heap :: toy_heap where
  "builtin_heap =
     \<lparr>objects = [(0, \<lparr>extensible = True,
                      slots = [(''Infinity'', ReadOnly (JNumber 0x7FF0000000000000))]\<rparr>)],
      natives = [], next_id = 1\<rparr>"

definition syntax_error :: TryCatch where
  "syntax_error = \<lparr>HasCaught = True, Exception = Some ''SyntaxError: Unexpected end of input'',
                   Message = Some (Some ''Uncaught SyntaxError: Unexpected end of input'')\<rparr>"

text \<open>
  In \<open>sample_engine\<close> every source but \<^verbatim>\<open>(\<close> compiles, the global object of a new
  context has no property, a string converts to itself and nothing else converts,
  and the host returns no result. \<open>builtin_engine\<close> differs in the new context, whose
  global object has \<^verbatim>\<open>Infinity\<close>; in \<open>no_memory_engine\<close> \<^verbatim>\<open>std::malloc\<close> returns null.
\<close>

definition sample_engine :: "toy_heap engine" where
  "sample_engine =
     \<lparr>NewContext = empty_heap,
      Global = (\<lambda>h. 0),
      Compile = (\<lambda>s. if s = ''('' then Some syntax_error else None),
      RunScript = toy_run,
      CallFunction = (\<lambda>f args h. (Inr JUndefined, h)),
      ObjectNew = toy_new,
      ObjectGet = toy_get,
      ObjectSet = toy_set,
      GetFunction = toy_function,
      SetName = (\<lambda>h f k. h),
      Callee = toy_callee,
      Utf8Value = (\<lambda>h v. (case v of JString s \<Rightarrow> Some s | _ \<Rightarrow> None, h)),
      UncaughtMessage = (\<lambda>m. None),
      malloc = True,
      host_function_invoke = (\<lambda>fid args. (1, None, None))\<rparr>"

definition builtin_engine :: "toy_heap engine" where
  "builtin_engine = sample_engine\<lparr>NewContext := builtin_heap\<rparr>"

definition no_memory_engine :: "toy_heap engine" where
  "no_memory_engine = sample_engine\<lparr>malloc := False\<rparr>"

definition isolate_A :: IsolateWrapper where
  "isolate_A = \<lparr>isolate = Some 1, allocator = Some 1\<rparr>"

definition isolate_B :: IsolateWrapper where
  "isolate_B = \<lparr>isolate = Some 2, allocator = Some 2\<rparr>"

definition fresh_context :: "toy_heap ContextWrapper" where
  "fresh_context = \<lparr>isolate_wrapper = Some isolate_A, context = empty_heap, cache = [],
                    native_callbacks = []\<rparr>"

definition builtin_context :: "toy_heap ContextWrapper" where
  "builtin_context = \<lparr>isolate_wrapper = Some isolate_A, context = builtin_heap, cache = [],
                      native_callbacks = []\<rparr>"

definition long_source :: string where
  "long_source = replicate 65537 (CHR ''1'')"

definition ready_process :: Process where
  "ready_process = \<lparr>g_v8_once = True, g_platform = True, setup_runs = 1\<rparr>"

definition failed_process :: Process where
  "failed_process = \<lparr>g_v8_once = False, g_platform = False, setup_runs = 1\<rparr>"

definition empty_thrown :: TryCatch where
  "empty_thrown = \<lparr>HasCaught = True, Exception = Some [], Message = None\<rparr>"

definition nothing_thrown :: TryCatch where
  "nothing_thrown = \<lparr>HasCaught = False, Exception = None, Message = None\<rparr>"

definition symbol_thrown :: TryCatch where
  "symbol_thrown = \<lparr>HasCaught = True, Exception = None,
                     Message = Some (Some ''Uncaught Symbol()'')\<rparr>"

text \<open>
  The two lines of a captured message: the exception's string form, or the placeholder
  when it has none, and the diagnostic when the engine supplies one.
\<close>

definition first_line :: "TryCatch \<Rightarrow> string" where
  "first_line tc = (case Exception tc of Some ex \<Rightarrow> ex | None \<Rightarrow> ''unknown V8 exception'')"

definition diagnostic :: "TryCatch \<Rightarrow> string option" where
  "diagnostic tc = (case Message tc of Some (Some d) \<Rightarrow> Some d | _ \<Rightarrow> None)"

definition script_on_B :: ScriptWrapper where
  "script_on_B = \<lparr>script_isolate_wrapper = isolate_B, script = Some (Unbound ''1 + 1''),
                  cache_key = ''1 + 1''\<rparr>"

definition long_script :: ScriptWrapper where
  "long_script = \<lparr>script_isolate_wrapper = isolate_A, script = Some (Unbound long_source),
                  cache_key = long_source\<rparr>"

text \<open>The ids of the callbacks a context holds, one per registry entry.\<close>

definition registered_ids :: "'h ContextWrapper \<Rightarrow> 64 word list" where
  "registered_ids c =
     concat (map (\<lambda>entry. case snd entry of Some d \<Rightarrow> [function_id d] | None \<Rightarrow> [])
                 (native_callbacks c))"


text \<open>Registrations on a fresh context: \<^verbatim>\<open>a\<close> with id 7, then \<^verbatim>\<open>b\<close> with id 7 or id 8.\<close>

definition reg_a7 :: "toy_heap api_result" where
  "reg_a7 = shim_context_register_host_function sample_engine (Some fresh_context) (Some ''a'') 7 None"

definition reg_b7 :: "toy_heap api_result" where
  "reg_b7 = shim_context_register_host_function sample_engine (context_after reg_a7) (Some ''b'') 7 None"

definition reg_b8 :: "toy_heap api_result" where
  "reg_b8 = shim_context_register_host_function sample_engine (context_after reg_a7) (Some ''b'') 8 None"




text \<open>The slot holds a string, not a null pointer.\<close>

definition holds_string :: "out_slot \<Rightarrow> bool" where
  "holds_string slot = (case slot of Some (Some m) \<Rightarrow> True | _ \<Rightarrow> False)"

text \<open>
  What a slot the caller passed holds after a string was to be put in it: the string
  when \<^verbatim>\<open>std::malloc\<close> returned a buffer for the copy, null when it did not.
\<close>

definition populated :: "'h engine \<Rightarrow> out_slot \<Rightarrow> bool" where
  "populated e slot = (if malloc e then holds_string slot else slot = Some None)"

text \<open>
  The discipline of the two out-parameters, given the slots the caller passed: the
  status is 0 or 1; on failure the result slot, if there is one, holds null, and the
  error slot, if there is one, is populated; on success the error slot, if there is
  one, holds null, and the result slot, if there is one, is populated. A slot the
  caller did not pass stays absent.
\<close>

definition one_side_populated :: "'h engine \<Rightarrow> out_slot \<Rightarrow> out_slot \<Rightarrow> 'h api_result \<Rightarrow> bool" where
  "one_side_populated e result_slot error_slot r =
     ((status r = 0 \<or> status r = 1)
      \<and> (status r = 0 \<longrightarrow>
            result_out r = clear_slot result_slot
            \<and> (if error_slot = None then error_out r = None else populated e (error_out r)))
      \<and> (status r = 1 \<longrightarrow>
            error_out r = clear_slot error_slot
            \<and> (if result_slot = None then result_out r = None else populated e (result_out r))))"

text \<open>How often the shim asked the engine to compile \<open>s\<close>.\<close>

definition compile_count :: "string \<Rightarrow> event list \<Rightarrow> nat" where
  "compile_count s evs = length (filter (\<lambda>ev. ev = EvCompile s) evs)"

text \<open>
  The context after a first \<^verbatim>\<open>shim_context_eval\<close> of a source \<open>s\<close> that was not
  cached, is short enough and compiles: \<open>s\<close> is cached and the unit has run; when the
  run succeeded and the caller passed a result slot, the result has been converted.
\<close>

definition run_heap :: "'h engine \<Rightarrow> nat option \<Rightarrow> string \<Rightarrow> out_slot \<Rightarrow> 'h \<Rightarrow> 'h" where
  "run_heap e isol u result_slot h =
     (case RunScript e u h of
        (Inl tc, g) \<Rightarrow> g
      | (Inr v, g) \<Rightarrow> snd (set_result e isol (clear_slot result_slot) v g))"

definition after_first ::
  "'h engine \<Rightarrow> 'h ContextWrapper \<Rightarrow> string \<Rightarrow> out_slot \<Rightarrow> 'h ContextWrapper" where
  "after_first e c s result_slot =
     c\<lparr>cache := cache c @ [(s, Unbound s)],
       context := run_heap e (ContextWrapper_isolate c) s result_slot (context c)\<rparr>"

text \<open>Two evaluations of \<^verbatim>\<open>(\<close>, which does not compile, on a fresh context.\<close>

definition failing_eval :: "toy_heap api_result" where
  "failing_eval = shim_context_eval sample_engine (Some fresh_context) (Some ''('') None None"

definition failing_eval_again :: "toy_heap api_result" where
  "failing_eval_again =
     shim_context_eval sample_engine (context_after failing_eval) (Some ''('') None None"


text \<open>The heap where \<^verbatim>\<open>a\<close> is the object 1 and \<^verbatim>\<open>a.b\<close> holds the number 1.0.\<close>

definition number_at_ab :: "toy_heap ContextWrapper" where
  "number_at_ab =
     fresh_context\<lparr>context :=
       \<lparr>objects = [(0, \<lparr>extensible = True, slots = [(''a'', Data (JObject 1))]\<rparr>),
                   (1, \<lparr>extensible = True, slots = [(''b'', Data (JNumber 0x3FF0000000000000))]\<rparr>)],
        natives = [], next_id = 2\<rparr>\<rparr>"







text \<open>
  The heaps those registrations leave: after \<^verbatim>\<open>a\<close> with id \<open>i\<close> the function is the
  object 1; after \<^verbatim>\<open>b\<close> with id \<open>j\<close> as well, that function is the object 2; after
  \<^verbatim>\<open>a\<close> again, with id \<open>j\<close>, the new function is the object 2 and \<^verbatim>\<open>a\<close> holds it.
\<close>

definition registered_a :: "64 word \<Rightarrow> toy_heap" where
  "registered_a i =
     \<lparr>objects = [(0, \<lparr>extensible = True, slots = [(''a'', Data (JFunction 1))]\<rparr>),
                 (1, \<lparr>extensible = True, slots = []\<rparr>)],
      natives = [(1, \<lparr>function_id = i\<rparr>)], next_id = 2\<rparr>"

definition registered_ab :: "64 word \<Rightarrow> 64 word \<Rightarrow> toy_heap" where
  "registered_ab i j =
     \<lparr>objects = [(0, \<lparr>extensible = True,
                      slots = [(''a'', Data (JFunction 1)), (''b'', Data (JFunction 2))]\<rparr>),
                 (1, \<lparr>extensible = True, slots = []\<rparr>),
                 (2, \<lparr>extensible = True, slots = []\<rparr>)],
      natives = [(1, \<lparr>function_id = i\<rparr>), (2, \<lparr>function_id = j\<rparr>)], next_id = 3\<rparr>"




text \<open>A heap of extensible objects, given by their properties, with no function.\<close>

definition plain_heap :: "(nat \<times> (string \<times> toy_slot) list) list \<Rightarrow> nat \<Rightarrow> toy_heap" where
  "plain_heap obs n =
     \<lparr>objects = map (\<lambda>entry. (fst entry, \<lparr>extensible = True, slots = snd entry\<rparr>)) obs,
      natives = [], next_id = n\<rparr>"


section \<open>The loop of \<^verbatim>\<open>ensure_property_path\<close>, one step at a time\<close>

declare ensure_property_path_loop.simps [simp del]

lemma find_first_None: "find_first c xs = None \<longleftrightarrow> c \<notin> set xs"
  by (induction xs) auto



lemma find_from_None:
  "find_from path (CHR ''.'') start = None \<longleftrightarrow> CHR ''.'' \<notin> set (drop start path)"
  by (simp add: find_from_def find_first_None)






lemma loop_no_dot:
  "start < length path \<Longrightarrow> find_from path (CHR ''.'') start = None \<Longrightarrow>
     ensure_property_path_loop e path start h current evs
       = (Inr (current, drop start path), h, evs)"
  by (subst ensure_property_path_loop.simps)
     (simp add: Let_def del: ensure_property_path_loop.simps)








section \<open>Basic facts about the operations\<close>

lemma assign_error_value:
  "assign_error e slot m =
     (case slot of None \<Rightarrow> None | Some p \<Rightarrow> Some (if malloc e then Some m else None))"
  by (simp add: assign_error_def copy_std_string_def copy_string_def split: option.splits)

lemma ensure_context_valid:
  "ContextWrapper_isolate c \<noteq> None \<Longrightarrow> ensure_context (Some c) = Inr c"
  by (auto simp: ensure_context_def)


lemma eval_run_events: "events (eval_run e rs es u c evs) = evs @ [EvRun u]"
  by (simp add: eval_run_def failure_def split: prod.splits sum.splits)

lemma eval_run_cache:
  "context_after (eval_run e rs es u c evs) = Some c' \<Longrightarrow> cache c' = cache c"
  by (auto simp: eval_run_def failure_def split: prod.splits sum.splits)

lemma eval_miss:
  assumes "ContextWrapper_isolate c \<noteq> None" and "length s \<le> kMaxCacheableSourceLength"
    and "um_find (cache c) s = None" and "Compile e s = None"
  shows "shim_context_eval e (Some c) (Some s) rs es =
           eval_run e (clear_slot rs) (clear_slot es) s
             (c\<lparr>cache := cache c @ [(s, Unbound s)]\<rparr>) [EvCompile s]"
  using assms
  by (simp add: shim_context_eval_def ensure_context_valid um_emplace_def um_find_def Let_def)

lemma eval_hit:
  assumes "ContextWrapper_isolate c \<noteq> None" and "um_find (cache c) s = Some (Unbound u)"
  shows "shim_context_eval e (Some c) (Some s) rs es =
           eval_run e (clear_slot rs) (clear_slot es) u c [EvBind u]"
  using assms
  by (simp add: shim_context_eval_def ensure_context_valid Let_def)

lemma eval_compile_failure:
  assumes "ContextWrapper_isolate c \<noteq> None" and "um_find (cache c) s = None"
    and "Compile e s = Some tc"
  shows "shim_context_eval e (Some c) (Some s) rs es =
           failure e (clear_slot rs) (clear_slot es)
             (snd (capture_exception (ContextWrapper_isolate c) tc)) (Some c) [EvCompile s]"
  using assms
  by (simp add: shim_context_eval_def ensure_context_valid Let_def)

lemma clear_slot_idem: "clear_slot (clear_slot s) = clear_slot s"
  by (simp add: clear_slot_def split: option.splits)

lemma fresh_valid: "ContextWrapper_isolate fresh_context \<noteq> None"
  by (simp add: fresh_context_def ContextWrapper_isolate_def isolate_A_def)

lemma eval_null_source:
  "shim_context_eval sample_engine (Some fresh_context) None rs es =
     \<lparr>status = 0, result_out = clear_slot rs,
      error_out = (case es of None \<Rightarrow> None | Some p \<Rightarrow> Some (Some ''source was null'')),
      context_after = Some fresh_context, events = []\<rparr>"
  by (simp add: shim_context_eval_def ensure_context_valid fresh_valid failure_def
        assign_error_value sample_engine_def clear_slot_def split: option.splits)

lemma eval_sample_source:
  "src \<noteq> ''('' \<Longrightarrow> src \<noteq> prevent_extensions \<Longrightarrow> length src \<le> kMaxCacheableSourceLength \<Longrightarrow>
   shim_context_eval sample_engine (Some fresh_context) (Some src) rs es =
     \<lparr>status = 1,
      result_out = (case rs of None \<Rightarrow> None | Some p \<Rightarrow> Some (Some src)),
      error_out = clear_slot es,
      context_after = Some (fresh_context\<lparr>cache := [(src, Unbound src)]\<rparr>),
      events = [EvCompile src, EvRun src]\<rparr>"
  by (simp add: shim_context_eval_def ensure_context_def fresh_context_def ContextWrapper_isolate_def
        isolate_A_def eval_run_def sample_engine_def um_find_def um_emplace_def set_result_def
        value_to_utf8_def copy_string_def copy_std_string_def Let_def clear_slot_def toy_run_def
        split: option.splits)

section \<open>The sample isolates, contexts and scripts come from the operations\<close>

lemma isolate_A_created: "shim_create_isolate (Some 1) 1 = Some isolate_A"
  by (simp add: shim_create_isolate_def isolate_A_def)

lemma isolate_B_created: "shim_create_isolate (Some 2) 2 = Some isolate_B"
  by (simp add: shim_create_isolate_def isolate_B_def)

lemma fresh_context_created: "shim_create_context sample_engine (Some isolate_A) = Some fresh_context"
  by (simp add: shim_create_context_def isolate_A_def fresh_context_def sample_engine_def)

lemma builtin_context_created:
  "shim_create_context builtin_engine (Some isolate_A) = Some builtin_context"
  by (simp add: shim_create_context_def isolate_A_def builtin_context_def builtin_engine_def)

lemma script_on_B_compiled:
  "compiled_script (shim_compile_script sample_engine (Some isolate_B) (Some ''1 + 1'') None)
     = Some script_on_B"
  by (simp add: shim_compile_script_def ensure_isolate_def isolate_B_def sample_engine_def
        script_on_B_def clear_slot_def)

section \<open>Registrations on the sample contexts\<close>

lemma path_single:
  "CHR ''.'' \<notin> set p \<Longrightarrow> p \<noteq> [] \<Longrightarrow>
     ensure_property_path e h p = (Inr (JObject (Global e h), p), h, [])"
  by (simp add: ensure_property_path_def loop_no_dot find_from_None)

lemma reg_a7_eval:
  "reg_a7 = \<lparr>status = 1, result_out = None, error_out = None,
      context_after = Some (fresh_context\<lparr>context := registered_a 7,
                              native_callbacks := [(''a'', Some \<lparr>function_id = 7\<rparr>)]\<rparr>),
      events = [EvSet (JObject 0) ''a'' (JFunction 1), EvRegistryInsert ''a'' 7]\<rparr>"
  by (simp add: reg_a7_def shim_context_register_host_function_def ensure_context_valid
       fresh_valid clear_slot_def path_single Let_def)
     (simp add: sample_engine_def fresh_context_def empty_heap_def toy_function_def toy_set_def
       object_id_def registered_a_def um_find_def um_emplace_def)

lemma after_a7_valid:
  "ContextWrapper_isolate (fresh_context\<lparr>context := g, native_callbacks := k\<rparr>) \<noteq> None"
  by (simp add: fresh_context_def ContextWrapper_isolate_def isolate_A_def)

lemma reg_b7_eval:
  "reg_b7 = \<lparr>status = 1, result_out = None, error_out = None,
      context_after = Some (fresh_context\<lparr>context := registered_ab 7 7,
                              native_callbacks := [(''a'', Some \<lparr>function_id = 7\<rparr>), (''b'', Some \<lparr>function_id = 7\<rparr>)]\<rparr>),
      events = [EvSet (JObject 0) ''b'' (JFunction 2), EvRegistryInsert ''b'' 7]\<rparr>"
  by (simp add: reg_b7_def reg_a7_eval shim_context_register_host_function_def ensure_context_valid
       after_a7_valid clear_slot_def path_single Let_def)
     (simp add: sample_engine_def registered_a_def toy_function_def toy_set_def
       object_id_def registered_ab_def um_find_def um_emplace_def)

lemma reg_b8_eval:
  "reg_b8 = \<lparr>status = 1, result_out = None, error_out = None,
      context_after = Some (fresh_context\<lparr>context := registered_ab 7 8,
                              native_callbacks := [(''a'', Some \<lparr>function_id = 7\<rparr>), (''b'', Some \<lparr>function_id = 8\<rparr>)]\<rparr>),
      events = [EvSet (JObject 0) ''b'' (JFunction 2), EvRegistryInsert ''b'' 8]\<rparr>"
  by (simp add: reg_b8_def reg_a7_eval shim_context_register_host_function_def ensure_context_valid
       after_a7_valid clear_slot_def path_single Let_def)
     (simp add: sample_engine_def registered_a_def toy_function_def toy_set_def
       object_id_def registered_ab_def um_find_def um_emplace_def)

section \<open>Engine initialiser: once after success, again after failure\<close>

lemma initialize_set_flag_noop:
  "g_v8_once p \<Longrightarrow> shim_v8_initialize env path p = (p, 1)"
  by (simp add: shim_v8_initialize_def call_once_def)

lemma initialize_all_after_success:
  "g_v8_once p \<Longrightarrow> initialize_all calls p = (p, replicate (length calls) 1)"
  by (induction calls) (auto simp: initialize_set_flag_noop)

lemma initialize_status_flag:
  "shim_v8_initialize env path p = (p1, r) \<Longrightarrow>
     (r = 1 \<and> g_v8_once p1) \<or> (r = 0 \<and> \<not> g_v8_once p1)"
  by (auto simp: shim_v8_initialize_def call_once_def setup_body_def Let_def
           split: if_splits prod.splits bool.splits)

lemma initialize_unset_runs_body:
  "\<not> g_v8_once p \<Longrightarrow> setup_runs (fst (shim_v8_initialize env path p)) = Suc (setup_runs p)"
  by (auto simp: shim_v8_initialize_def call_once_def setup_body_def Let_def
           split: if_splits prod.splits bool.splits)

lemma initialize_bad_first:
  "shim_v8_initialize icu_only_good (Some ''bad.dat'') init_process = (failed_process, 0)"
  by (simp add: shim_v8_initialize_def call_once_def setup_body_def icu_only_good_def
        init_process_def failed_process_def)

lemma initialize_good_first:
  "shim_v8_initialize icu_only_good (Some ''good.dat'') init_process = (ready_process, 1)"
  by (simp add: shim_v8_initialize_def call_once_def setup_body_def icu_only_good_def
        init_process_def ready_process_def)

text \<open>
  C1, as stated, fails. Where only \<^verbatim>\<open>good.dat\<close> loads, a first call with \<^verbatim>\<open>bad.dat\<close>
  returns 0; the second call, with \<^verbatim>\<open>good.dat\<close>, does not observe that outcome: it runs
  the setup body a second time and returns 1.
\<close>

theorem initialize_retries_after_failure:
  "snd (shim_v8_initialize icu_only_good (Some ''bad.dat'') init_process) = 0
   \<and> snd (shim_v8_initialize icu_only_good (Some ''good.dat'')
            (fst (shim_v8_initialize icu_only_good (Some ''bad.dat'') init_process))) = 1
   \<and> setup_runs (fst (shim_v8_initialize icu_only_good (Some ''good.dat'')
            (fst (shim_v8_initialize icu_only_good (Some ''bad.dat'') init_process)))) = 2"
  by (simp add: shim_v8_initialize_def call_once_def setup_body_def icu_only_good_def
        init_process_def)

text \<open>
  C1, amended. A call returns 1 or 0. Once a call has returned 1 the guard is set, and
  every later sequence of calls, with any paths and in any environment, returns 1 each
  time and leaves the process as it is, the count of setup runs included: the body is
  not run again. A call that returned 0 leaves the guard unset, and the next call,
  whatever its path, runs the setup body once more.
\<close>

theorem initialize_once_after_success:
  assumes "shim_v8_initialize env path p = (p1, r)"
  shows "(r = 1 \<or> r = 0)
    \<and> (r = 1 \<longrightarrow> g_v8_once p1
          \<and> (\<forall>calls. initialize_all calls p1 = (p1, replicate (length calls) 1)))
    \<and> (r = 0 \<longrightarrow> \<not> g_v8_once p1
          \<and> (\<forall>env' path'. setup_runs (fst (shim_v8_initialize env' path' p1))
                = Suc (setup_runs p1)))"
  using initialize_status_flag [OF assms]
  by (auto simp: initialize_all_after_success initialize_unset_runs_body)

theorem initialize_once_after_success_witness:
  "shim_v8_initialize icu_only_good (Some ''good.dat'') init_process = (ready_process, 1)
   \<and> initialize_all [(icu_only_good, Some ''bad.dat''), (icu_only_good, None)] ready_process
       = (ready_process, [1, 1])
   \<and> shim_v8_initialize icu_only_good (Some ''bad.dat'') init_process = (failed_process, 0)
   \<and> \<not> g_v8_once failed_process
   \<and> setup_runs (fst (shim_v8_initialize icu_only_good (Some ''good.dat'') failed_process))
       = Suc (setup_runs failed_process)"
  using initialize_once_after_success [OF initialize_good_first] initialize_good_first
    initialize_once_after_success [OF initialize_bad_first] initialize_bad_first
  by (simp del: initialize_all.simps)

section \<open>The bound on cached sources\<close>

lemma long_source_length: "length long_source = 65537"
  by (simp add: long_source_def)

lemma long_source_not_paren: "long_source \<noteq> ''(''"
proof
  assume "long_source = ''(''"
  then have "length long_source = length ''(''" by (rule arg_cong)
  then show False by (simp add: long_source_length)
qed

lemma long_source_not_prevent: "long_source \<noteq> prevent_extensions"
proof
  assume "long_source = prevent_extensions"
  then have "length long_source = length prevent_extensions" by (rule arg_cong)
  then show False by (simp add: long_source_length prevent_extensions_def)
qed

lemma long_source_not_empty: "long_source \<noteq> []"
  using long_source_length by auto

text \<open>
  \<^verbatim>\<open>shim_context_eval\<close> keeps the bound: if no key of the cache is longer than
  \<^verbatim>\<open>kMaxCacheableSourceLength\<close> before the call, none is after it.
\<close>

lemma eval_keeps_cache_bound:
  assumes "\<forall>k \<in> fst ` set (cache c). length k \<le> kMaxCacheableSourceLength"
    and "context_after (shim_context_eval e (Some c) src rs es) = Some c'"
  shows "\<forall>k \<in> fst ` set (cache c'). length k \<le> kMaxCacheableSourceLength"
proof -
  note run = eval_run_cache
  have emp: "set (um_emplace s v (cache c)) \<subseteq> insert (s, v) (set (cache c))" for s v
    by (auto simp: um_emplace_def split: option.splits)
  show ?thesis
  proof (cases "ContextWrapper_isolate c = None")
    case True
    with assms show ?thesis
      by (auto simp: shim_context_eval_def ensure_context_def failure_def Let_def)
  next
    case False
    note v = ensure_context_valid [OF False]
    show ?thesis
    proof (cases src)
      case None
      with assms v show ?thesis
        by (auto simp: shim_context_eval_def failure_def Let_def)
    next
      case (Some s)
      show ?thesis
      proof (cases "um_find (cache c) s")
        case hit: (Some unit)
        obtain u where "unit = Unbound u" by (cases unit)
        with assms v Some hit have "cache c' = cache c"
          by (auto simp: shim_context_eval_def Let_def dest: run)
        with assms(1) show ?thesis by simp
      next
        case miss: None
        show ?thesis
        proof (cases "Compile e s")
          case (Some tc)
          with assms v \<open>src = Some s\<close> miss show ?thesis
            by (auto simp: shim_context_eval_def failure_def Let_def)
        next
          case None
          show ?thesis
          proof (cases "length s \<le> kMaxCacheableSourceLength")
            case True
            with assms(2) v \<open>src = Some s\<close> miss None
            have "cache c' = um_emplace s (Unbound s) (cache c)"
              by (auto simp: shim_context_eval_def Let_def dest: run)
            with assms(1) True emp [of s "Unbound s"] show ?thesis by auto
          next
            case False
            with assms(2) v \<open>src = Some s\<close> miss None have "cache c' = cache c"
              by (auto simp: shim_context_eval_def Let_def dest: run)
            with assms(1) show ?thesis by simp
          qed
        qed
      qed
    qed
  qed
qed

text \<open>
  C2 at a source of 65537 bytes. \<^verbatim>\<open>shim_compile_script\<close> accepts it and keeps it as the
  cache key; \<^verbatim>\<open>shim_script_run\<close> on a fresh context of the same isolate succeeds and
  leaves the key in the cache, above the bound that \<^verbatim>\<open>shim_context_eval\<close> checks.
\<close>

theorem script_run_caches_long_source:
  "compiled_script (shim_compile_script sample_engine (Some isolate_A) (Some long_source) None)
     = Some long_script
   \<and> status (shim_script_run sample_engine (Some long_script) (Some fresh_context) None None) = 1
   \<and> context_after (shim_script_run sample_engine (Some long_script) (Some fresh_context) None None)
       = Some (fresh_context\<lparr>cache := [(long_source, Unbound long_source)]\<rparr>)
   \<and> kMaxCacheableSourceLength < length long_source"
  by (simp add: shim_compile_script_def ensure_isolate_def isolate_A_def sample_engine_def
        long_script_def clear_slot_def long_source_not_paren long_source_not_empty
        long_source_not_prevent toy_run_def
        long_source_length shim_script_run_def ensure_script_def ensure_context_def
        fresh_context_def ContextWrapper_isolate_def um_insert_or_assign_def
        kMaxCacheableSourceLength_def set_result_def Let_def)

section \<open>Registering a host function\<close>























section \<open>The script cache of \<^verbatim>\<open>shim_context_eval\<close>\<close>

lemma eval_run_context:
  "context_after (eval_run e (clear_slot rs) es u c evs)
     = Some (c\<lparr>context := run_heap e (ContextWrapper_isolate c) u rs (context c)\<rparr>)"
  by (simp add: eval_run_def failure_def run_heap_def split: prod.splits sum.splits)

lemma eval_run_outcome:
  "status (eval_run e rs es u c evs) = status (eval_run e rs es u (c\<lparr>cache := k\<rparr>) evs')
   \<and> result_out (eval_run e rs es u c evs) = result_out (eval_run e rs es u (c\<lparr>cache := k\<rparr>) evs')
   \<and> error_out (eval_run e rs es u c evs) = error_out (eval_run e rs es u (c\<lparr>cache := k\<rparr>) evs')
   \<and> map_option context (context_after (eval_run e rs es u c evs))
       = map_option context (context_after (eval_run e rs es u (c\<lparr>cache := k\<rparr>) evs'))"
  by (simp add: eval_run_def failure_def ContextWrapper_isolate_def split: prod.splits sum.splits)

lemma eval_twice_detail:
  assumes valid: "ContextWrapper_isolate c \<noteq> None"
    and short: "length s \<le> kMaxCacheableSourceLength"
    and compiles: "Compile e s = None"
    and miss: "um_find (cache c) s = None"
  shows "events (shim_context_eval e (Some c) (Some s) rs es) = [EvCompile s, EvRun s]
    \<and> context_after (shim_context_eval e (Some c) (Some s) rs es) = Some (after_first e c s rs)
    \<and> um_find (cache (after_first e c s rs)) s = Some (Unbound s)
    \<and> events (shim_context_eval e (Some (after_first e c s rs)) (Some s) rs' es') = [EvBind s, EvRun s]
    \<and> map_option cache (context_after (shim_context_eval e (Some (after_first e c s rs)) (Some s) rs' es'))
        = Some (cache (after_first e c s rs))
    \<and> status (shim_context_eval e (Some (after_first e c s rs)) (Some s) rs' es')
        = status (shim_context_eval e (Some ((after_first e c s rs)\<lparr>cache := []\<rparr>)) (Some s) rs' es')
    \<and> result_out (shim_context_eval e (Some (after_first e c s rs)) (Some s) rs' es')
        = result_out (shim_context_eval e (Some ((after_first e c s rs)\<lparr>cache := []\<rparr>)) (Some s) rs' es')
    \<and> error_out (shim_context_eval e (Some (after_first e c s rs)) (Some s) rs' es')
        = error_out (shim_context_eval e (Some ((after_first e c s rs)\<lparr>cache := []\<rparr>)) (Some s) rs' es')
    \<and> map_option context (context_after (shim_context_eval e (Some (after_first e c s rs)) (Some s) rs' es'))
        = map_option context (context_after
            (shim_context_eval e (Some ((after_first e c s rs)\<lparr>cache := []\<rparr>)) (Some s) rs' es'))"
proof -
  let ?c1 = "after_first e c s rs"
  have first: "shim_context_eval e (Some c) (Some s) rs es =
      eval_run e (clear_slot rs) (clear_slot es) s (c\<lparr>cache := cache c @ [(s, Unbound s)]\<rparr>) [EvCompile s]"
    by (rule eval_miss [OF valid short miss compiles])
  have valid1: "ContextWrapper_isolate ?c1 \<noteq> None"
    using valid by (simp add: after_first_def ContextWrapper_isolate_def)
  have found: "um_find (cache ?c1) s = Some (Unbound s)"
    using miss by (simp add: after_first_def um_find_def map_add_def)
  have second: "shim_context_eval e (Some ?c1) (Some s) rs' es' =
      eval_run e (clear_slot rs') (clear_slot es') s ?c1 [EvBind s]"
    by (rule eval_hit [OF valid1 found])
  have valid2: "ContextWrapper_isolate (?c1\<lparr>cache := []\<rparr>) \<noteq> None"
    using valid by (simp add: after_first_def ContextWrapper_isolate_def)
  have fresh: "shim_context_eval e (Some (?c1\<lparr>cache := []\<rparr>)) (Some s) rs' es' =
      eval_run e (clear_slot rs') (clear_slot es') s (?c1\<lparr>cache := [(s, Unbound s)]\<rparr>) [EvCompile s]"
    using eval_miss [OF valid2 _ _ compiles, of rs' es'] short
    by (simp add: um_find_def)
  have ctx1: "context_after (eval_run e (clear_slot rs) (clear_slot es) s
                 (c\<lparr>cache := cache c @ [(s, Unbound s)]\<rparr>) [EvCompile s]) = Some ?c1"
    by (simp add: eval_run_context after_first_def ContextWrapper_isolate_def)
  have cache2: "map_option cache (context_after
                  (eval_run e (clear_slot rs') (clear_slot es') s ?c1 [EvBind s])) = Some (cache ?c1)"
    by (simp add: eval_run_context)
  show ?thesis
    unfolding first second fresh
    using found ctx1 cache2
      eval_run_outcome [of e "clear_slot rs'" "clear_slot es'" s ?c1 "[EvBind s]" "[(s, Unbound s)]" "[EvCompile s]"]
    by (simp add: eval_run_events)
qed

lemma eval_twice_cached:
  assumes valid: "ContextWrapper_isolate c \<noteq> None"
    and hit: "um_find (cache c) s = Some (Unbound u)"
  shows "events (shim_context_eval e (Some c) (Some s) rs es) = [EvBind u, EvRun u]
    \<and> events (shim_context_eval e (context_after (shim_context_eval e (Some c) (Some s) rs es))
                 (Some s) rs' es') = [EvBind u, EvRun u]"
proof -
  let ?c1 = "c\<lparr>context := run_heap e (ContextWrapper_isolate c) u rs (context c)\<rparr>"
  have first: "shim_context_eval e (Some c) (Some s) rs es =
      eval_run e (clear_slot rs) (clear_slot es) u c [EvBind u]"
    by (rule eval_hit [OF valid hit])
  have valid1: "ContextWrapper_isolate ?c1 \<noteq> None"
    using valid by (simp add: ContextWrapper_isolate_def)
  have hit1: "um_find (cache ?c1) s = Some (Unbound u)"
    using hit by simp
  show ?thesis
    unfolding first eval_run_context eval_hit [OF valid1 hit1]
    by (simp add: eval_run_events)
qed

lemma eval_twice_failing:
  assumes valid: "ContextWrapper_isolate c \<noteq> None"
    and miss: "um_find (cache c) s = None"
    and fails: "Compile e s = Some tc"
  shows "status (shim_context_eval e (Some c) (Some s) rs es) = 0
    \<and> events (shim_context_eval e (Some c) (Some s) rs es) = [EvCompile s]
    \<and> context_after (shim_context_eval e (Some c) (Some s) rs es) = Some c
    \<and> status (shim_context_eval e (Some c) (Some s) rs' es') = 0
    \<and> events (shim_context_eval e (Some c) (Some s) rs' es') = [EvCompile s]
    \<and> context_after (shim_context_eval e (Some c) (Some s) rs' es') = Some c"
  by (simp add: eval_compile_failure [OF valid miss fails] failure_def)

lemma failing_eval_value:
  "failing_eval = \<lparr>status = 0, result_out = None, error_out = None,
                    context_after = Some fresh_context, events = [EvCompile ''('']\<rparr>"
  by (simp add: failing_eval_def shim_context_eval_def ensure_context_def fresh_context_def
        ContextWrapper_isolate_def isolate_A_def sample_engine_def um_find_def failure_def
        clear_slot_def assign_error_def)

lemma failing_eval_again_value: "failing_eval_again = failing_eval"
proof -
  have "context_after failing_eval = Some fresh_context"
    by (simp add: failing_eval_value)
  then show ?thesis
    unfolding failing_eval_again_def by (simp add: failing_eval_def)
qed

text \<open>
  C4, as stated, fails. The source \<^verbatim>\<open>(\<close> is one byte long and does not compile. The
  first evaluation fails and caches nothing; the second, on the context the first one
  left, does not find it in the cache and asks the engine to compile it again.
\<close>

theorem eval_recompiles_failing_source:
  "length ''('' \<le> kMaxCacheableSourceLength
   \<and> status failing_eval = 0
   \<and> map_option cache (context_after failing_eval) = Some []
   \<and> status failing_eval_again = 0
   \<and> compile_count ''('' (events failing_eval @ events failing_eval_again) = 2"
  by (simp add: failing_eval_again_value failing_eval_value kMaxCacheableSourceLength_def
        compile_count_def fresh_context_def)

text \<open>
  C4, amended. On a valid context, take two evaluations of \<open>s\<close>, the second on the
  context the first one left.

  Let \<open>s\<close> be no longer than the bound and let it compile. The second evaluation never
  compiles, and the two together compile \<open>s\<close> once when it was not cached before and
  not at all when it was. When it was not cached, the first evaluation compiles \<open>s\<close>,
  runs it, and leaves the unit in the cache under \<open>s\<close>; the second finds \<open>s\<close>, binds
  the cached unit and runs it, and leaves the cache as it is. Its status, result,
  error and effect on the heap are those of an evaluation that compiles \<open>s\<close> afresh on
  the same heap.

  Let \<open>s\<close>, of any length, fail to compile and not be in the cache. The first
  evaluation asks the engine to compile \<open>s\<close>, fails, and leaves the context as it was,
  so \<open>s\<close> is not cached; the second does the same: the two together compile \<open>s\<close>
  twice.
\<close>

theorem eval_twice_compiles_once:
  assumes valid: "ContextWrapper_isolate c \<noteq> None"
  shows "(length s \<le> kMaxCacheableSourceLength \<and> Compile e s = None \<longrightarrow>
      compile_count s
           (events (shim_context_eval e (context_after (shim_context_eval e (Some c) (Some s) rs es))
                      (Some s) rs' es')) = 0
    \<and> compile_count s
         (events (shim_context_eval e (Some c) (Some s) rs es)
          @ events (shim_context_eval e (context_after (shim_context_eval e (Some c) (Some s) rs es))
                      (Some s) rs' es'))
        = (if um_find (cache c) s = None then 1 else 0)
    \<and> (um_find (cache c) s = None \<longrightarrow>
          events (shim_context_eval e (Some c) (Some s) rs es) = [EvCompile s, EvRun s]
        \<and> context_after (shim_context_eval e (Some c) (Some s) rs es) = Some (after_first e c s rs)
        \<and> um_find (cache (after_first e c s rs)) s = Some (Unbound s)
        \<and> events (shim_context_eval e (Some (after_first e c s rs)) (Some s) rs' es') = [EvBind s, EvRun s]
        \<and> map_option cache (context_after (shim_context_eval e (Some (after_first e c s rs)) (Some s) rs' es'))
            = Some (cache (after_first e c s rs))
        \<and> status (shim_context_eval e (Some (after_first e c s rs)) (Some s) rs' es')
            = status (shim_context_eval e (Some ((after_first e c s rs)\<lparr>cache := []\<rparr>)) (Some s) rs' es')
        \<and> result_out (shim_context_eval e (Some (after_first e c s rs)) (Some s) rs' es')
            = result_out (shim_context_eval e (Some ((after_first e c s rs)\<lparr>cache := []\<rparr>)) (Some s) rs' es')
        \<and> error_out (shim_context_eval e (Some (after_first e c s rs)) (Some s) rs' es')
            = error_out (shim_context_eval e (Some ((after_first e c s rs)\<lparr>cache := []\<rparr>)) (Some s) rs' es')
        \<and> map_option context (context_after (shim_context_eval e (Some (after_first e c s rs)) (Some s) rs' es'))
            = map_option context (context_after
                (shim_context_eval e (Some ((after_first e c s rs)\<lparr>cache := []\<rparr>)) (Some s) rs' es'))))
    \<and> (Compile e s \<noteq> None \<and> um_find (cache c) s = None \<longrightarrow>
          status (shim_context_eval e (Some c) (Some s) rs es) = 0
        \<and> events (shim_context_eval e (Some c) (Some s) rs es) = [EvCompile s]
        \<and> context_after (shim_context_eval e (Some c) (Some s) rs es) = Some c
        \<and> status (shim_context_eval e (context_after (shim_context_eval e (Some c) (Some s) rs es))
                    (Some s) rs' es') = 0
        \<and> events (shim_context_eval e (context_after (shim_context_eval e (Some c) (Some s) rs es))
                    (Some s) rs' es') = [EvCompile s]
        \<and> map_option cache
             (context_after
                (shim_context_eval e (context_after (shim_context_eval e (Some c) (Some s) rs es))
                   (Some s) rs' es')) = Some (cache c)
        \<and> compile_count s
             (events (shim_context_eval e (Some c) (Some s) rs es)
              @ events (shim_context_eval e (context_after (shim_context_eval e (Some c) (Some s) rs es))
                          (Some s) rs' es')) = 2)"
proof (rule conjI; rule impI)
  assume a: "length s \<le> kMaxCacheableSourceLength \<and> Compile e s = None"
  then have short: "length s \<le> kMaxCacheableSourceLength" and compiles: "Compile e s = None"
    by simp_all
  show "compile_count s
           (events (shim_context_eval e (context_after (shim_context_eval e (Some c) (Some s) rs es))
                      (Some s) rs' es')) = 0
    \<and> compile_count s
         (events (shim_context_eval e (Some c) (Some s) rs es)
          @ events (shim_context_eval e (context_after (shim_context_eval e (Some c) (Some s) rs es))
                      (Some s) rs' es'))
        = (if um_find (cache c) s = None then 1 else 0)
    \<and> (um_find (cache c) s = None \<longrightarrow>
          events (shim_context_eval e (Some c) (Some s) rs es) = [EvCompile s, EvRun s]
        \<and> context_after (shim_context_eval e (Some c) (Some s) rs es) = Some (after_first e c s rs)
        \<and> um_find (cache (after_first e c s rs)) s = Some (Unbound s)
        \<and> events (shim_context_eval e (Some (after_first e c s rs)) (Some s) rs' es') = [EvBind s, EvRun s]
        \<and> map_option cache (context_after (shim_context_eval e (Some (after_first e c s rs)) (Some s) rs' es'))
            = Some (cache (after_first e c s rs))
        \<and> status (shim_context_eval e (Some (after_first e c s rs)) (Some s) rs' es')
            = status (shim_context_eval e (Some ((after_first e c s rs)\<lparr>cache := []\<rparr>)) (Some s) rs' es')
        \<and> result_out (shim_context_eval e (Some (after_first e c s rs)) (Some s) rs' es')
            = result_out (shim_context_eval e (Some ((after_first e c s rs)\<lparr>cache := []\<rparr>)) (Some s) rs' es')
        \<and> error_out (shim_context_eval e (Some (after_first e c s rs)) (Some s) rs' es')
            = error_out (shim_context_eval e (Some ((after_first e c s rs)\<lparr>cache := []\<rparr>)) (Some s) rs' es')
        \<and> map_option context (context_after (shim_context_eval e (Some (after_first e c s rs)) (Some s) rs' es'))
            = map_option context (context_after
                (shim_context_eval e (Some ((after_first e c s rs)\<lparr>cache := []\<rparr>)) (Some s) rs' es')))"
  proof (cases "um_find (cache c) s")
    case None
    note d = eval_twice_detail [OF valid short compiles None, of rs es rs' es']
    from d have ctx: "context_after (shim_context_eval e (Some c) (Some s) rs es) = Some (after_first e c s rs)"
      by blast
    from d have e1: "events (shim_context_eval e (Some c) (Some s) rs es) = [EvCompile s, EvRun s]"
      by blast
    from d have e2: "events (shim_context_eval e (Some (after_first e c s rs)) (Some s) rs' es') = [EvBind s, EvRun s]"
      by blast
    have cnt: "compile_count s [EvBind s, EvRun s] = 0" "compile_count s ([EvCompile s, EvRun s] @ [EvBind s, EvRun s]) = 1"
      by (simp_all add: compile_count_def)
    show ?thesis
      unfolding ctx e1 e2 cnt using None d by simp
  next
    case (Some unit)
    obtain u where u: "unit = Unbound u" by (cases unit)
    note h = eval_twice_cached [OF valid Some [unfolded u], of e rs es rs' es']
    have cnt: "compile_count s [EvBind u, EvRun u] = 0" "compile_count s ([EvBind u, EvRun u] @ [EvBind u, EvRun u]) = 0"
      by (simp_all add: compile_count_def)
    show ?thesis
      using Some h cnt by simp
  qed
next
  assume b: "Compile e s \<noteq> None \<and> um_find (cache c) s = None"
  then obtain tc where fails: "Compile e s = Some tc" and miss: "um_find (cache c) s = None"
    by auto
  note f = eval_twice_failing [OF valid miss fails, of rs es rs' es']
  from f have ctx: "context_after (shim_context_eval e (Some c) (Some s) rs es) = Some c"
    by blast
  from f have e1: "events (shim_context_eval e (Some c) (Some s) rs es) = [EvCompile s]"
    and e2: "events (shim_context_eval e (Some c) (Some s) rs' es') = [EvCompile s]"
    by blast+
  have cnt: "compile_count s ([EvCompile s] @ [EvCompile s]) = 2"
    by (simp add: compile_count_def)
  show "status (shim_context_eval e (Some c) (Some s) rs es) = 0
        \<and> events (shim_context_eval e (Some c) (Some s) rs es) = [EvCompile s]
        \<and> context_after (shim_context_eval e (Some c) (Some s) rs es) = Some c
        \<and> status (shim_context_eval e (context_after (shim_context_eval e (Some c) (Some s) rs es))
                    (Some s) rs' es') = 0
        \<and> events (shim_context_eval e (context_after (shim_context_eval e (Some c) (Some s) rs es))
                    (Some s) rs' es') = [EvCompile s]
        \<and> map_option cache
             (context_after
                (shim_context_eval e (context_after (shim_context_eval e (Some c) (Some s) rs es))
                   (Some s) rs' es')) = Some (cache c)
        \<and> compile_count s
             (events (shim_context_eval e (Some c) (Some s) rs es)
              @ events (shim_context_eval e (context_after (shim_context_eval e (Some c) (Some s) rs es))
                          (Some s) rs' es')) = 2"
    unfolding ctx e1 e2 cnt using f by simp
qed

theorem eval_twice_compiles_once_witness:
  "ContextWrapper_isolate fresh_context \<noteq> None
   \<and> length ''1'' \<le> kMaxCacheableSourceLength \<and> Compile sample_engine ''1'' = None
   \<and> um_find (cache fresh_context) ''1'' = None
   \<and> events (shim_context_eval sample_engine (Some fresh_context) (Some ''1'') None None) = [EvCompile ''1'', EvRun ''1'']
   \<and> after_first sample_engine fresh_context ''1'' None = fresh_context\<lparr>cache := [(''1'', Unbound ''1'')]\<rparr>
   \<and> events (shim_context_eval sample_engine (Some (fresh_context\<lparr>cache := [(''1'', Unbound ''1'')]\<rparr>)) (Some ''1'') None None) = [EvBind ''1'', EvRun ''1'']
   \<and> Compile sample_engine ''('' \<noteq> None \<and> um_find (cache fresh_context) ''('' = None
   \<and> events (shim_context_eval sample_engine (Some fresh_context) (Some ''('') None None) = [EvCompile ''('']
   \<and> context_after (shim_context_eval sample_engine (Some fresh_context) (Some ''('') None None)
        = Some fresh_context"
  using eval_twice_compiles_once [of fresh_context "''1''" sample_engine None None None None]
    eval_twice_compiles_once [of fresh_context "''(''" sample_engine None None None None]
  by (simp add: fresh_valid kMaxCacheableSourceLength_def)
     (simp add: fresh_context_def um_find_def sample_engine_def after_first_def run_heap_def
        toy_run_def prevent_extensions_def set_result_def clear_slot_def ContextWrapper_isolate_def
        isolate_A_def)

section \<open>Disposal of a context\<close>

text \<open>
  C5, as stated, fails. Two paths registered with the same id make two callbacks; on
  disposal the host is told to drop that id twice, so the ids of the notifications are
  not distinct and an id is dropped more than once.
\<close>

theorem dispose_drops_same_id_twice:
  "status reg_a7 = 1 \<and> status reg_b7 = 1
   \<and> shim_dispose_context (context_after reg_b7) = [HostDrop 7, HostDrop 7]"
  by (simp add: reg_a7_eval reg_b7_eval shim_dispose_context_def dispose_native_callbacks_def)

lemma dispose_drops:
  "shim_dispose_context (Some c) = map HostDrop (registered_ids c)"
proof -
  have "concat (map (\<lambda>entry. case snd entry of Some d \<Rightarrow> [HostDrop (function_id d)] | None \<Rightarrow> []) xs)
      = map HostDrop (concat (map (\<lambda>entry. case snd entry of Some d \<Rightarrow> [function_id d] | None \<Rightarrow> []) xs))"
    for xs :: "(string \<times> NativeCallbackData option) list"
    by (induction xs) (auto split: option.splits)
  then show ?thesis
    by (simp add: shim_dispose_context_def dispose_native_callbacks_def registered_ids_def)
qed

text \<open>
  C5, amended. Disposal notifies the host once per registered callback, with that
  callback's id: as multisets, so whatever the order, the notifications are the
  registered ids; there are as many as there are callbacks, every id is dropped as
  often as it is registered, and the notifications are distinct whenever the registered
  ids are.
\<close>

theorem dispose_drops_each_registration:
  "mset (shim_dispose_context (Some c)) = image_mset HostDrop (mset (registered_ids c))
   \<and> length (shim_dispose_context (Some c)) = length (registered_ids c)
   \<and> (\<forall>i. count_list (shim_dispose_context (Some c)) (HostDrop i) = count_list (registered_ids c) i)
   \<and> (distinct (registered_ids c) \<longrightarrow> distinct (shim_dispose_context (Some c)))"
proof -
  have inj: "inj HostDrop" by (simp add: inj_def)
  have cnt: "count_list (map HostDrop xs) (HostDrop i) = count_list xs i" for xs i
    by (induction xs) auto
  show ?thesis
    by (simp add: dispose_drops cnt distinct_map inj_on_def)
qed

theorem dispose_drops_each_registration_witness:
  "registered_ids (fresh_context\<lparr>context := registered_ab 7 8,
                              native_callbacks := [(''a'', Some \<lparr>function_id = 7\<rparr>), (''b'', Some \<lparr>function_id = 8\<rparr>)]\<rparr>) = [7, 8]
   \<and> context_after reg_b8 = Some (fresh_context\<lparr>context := registered_ab 7 8,
                              native_callbacks := [(''a'', Some \<lparr>function_id = 7\<rparr>), (''b'', Some \<lparr>function_id = 8\<rparr>)]\<rparr>)
   \<and> distinct (shim_dispose_context (context_after reg_b8))
   \<and> length (shim_dispose_context (context_after reg_b8)) = 2"
  using dispose_drops_each_registration [of "fresh_context\<lparr>context := registered_ab 7 8,
                              native_callbacks := [(''a'', Some \<lparr>function_id = 7\<rparr>), (''b'', Some \<lparr>function_id = 8\<rparr>)]\<rparr>"]
  by (simp add: reg_b8_eval registered_ids_def)

section \<open>Setting a global at a dotted path\<close>







lemma number_at_ab_reached:
  "context_after (shim_context_set_global_number sample_engine (Some fresh_context)
                    (Some ''a.b'') 0x3FF0000000000000 None) = Some number_at_ab"
proof -
  have walk: "ensure_property_path sample_engine empty_heap ''a.b'' =
      (Inr (JObject 1, ''b''), plain_heap [(0, [(''a'', Data (JObject 1))]), (1, [])] 2,
       [EvNew (JObject 1), EvSet (JObject 0) ''a'' (JObject 1)])"
    by (simp add: ensure_property_path_def ensure_property_path_loop.simps find_from_def
          absent_def sample_engine_def toy_get_def toy_new_def toy_set_def
          object_id_def empty_heap_def plain_heap_def Let_def)
  have ctx: "context fresh_context = empty_heap"
    by (simp add: fresh_context_def)
  show ?thesis
    by (simp add: shim_context_set_global_number_def set_global_def ensure_context_valid
          fresh_valid clear_slot_def ctx walk)
       (simp add: sample_engine_def toy_set_def object_id_def plain_heap_def number_at_ab_def)
qed











section \<open>Exception capture\<close>

text \<open>
  C7, as stated, fails. A script throws a value with no string form (\<^verbatim>\<open>throw Symbol()\<close>:
  the \<^verbatim>\<open>Utf8Value\<close> of the exception is null). An exception is pending, yet the first
  line of the captured message is the placeholder \<^verbatim>\<open>unknown V8 exception\<close>: neither a
  string form of the exception nor the generic execution-failure string.
\<close>

theorem capture_exception_placeholder:
  "HasCaught symbol_thrown \<and> Exception symbol_thrown = None
   \<and> capture_exception (Some 1) symbol_thrown
       = (True, ''unknown V8 exception'' @ newline @ ''Uncaught Symbol()'')"
  by (simp add: capture_exception_def symbol_thrown_def)

text \<open>
  C7, amended. With an isolate at hand, a pending exception is captured as its own
  string form, or as \<^verbatim>\<open>unknown V8 exception\<close> when it has none, followed by a newline and
  the engine's diagnostic when there is one; with no exception pending the message is
  \<^verbatim>\<open>V8 execution failed\<close>. So the message starts with the exception's text, holds a line
  break whenever a diagnostic exists, and is empty only for an exception whose text is
  empty and that has no diagnostic.
\<close>

theorem capture_exception_message:
  assumes "isol \<noteq> None"
  shows "capture_exception isol tc =
           (HasCaught tc,
            if HasCaught tc
            then (case diagnostic tc of
                    None \<Rightarrow> first_line tc
                  | Some d \<Rightarrow> first_line tc @ newline @ d)
            else ''V8 execution failed'')
    \<and> (HasCaught tc \<longrightarrow>
          take (length (first_line tc)) (snd (capture_exception isol tc)) = first_line tc)
    \<and> (HasCaught tc \<and> diagnostic tc \<noteq> None \<longrightarrow>
          CHR 0x0A \<in> set (snd (capture_exception isol tc)))
    \<and> (snd (capture_exception isol tc) = [] \<longrightarrow>
          HasCaught tc \<and> Exception tc = Some [] \<and> diagnostic tc = None)"
  using assms
  by (auto simp: capture_exception_def first_line_def diagnostic_def newline_def Let_def
           split: option.splits)

theorem capture_exception_message_witness:
  "capture_exception (Some 1) syntax_error =
     (True, ''SyntaxError: Unexpected end of input'' @ newline
              @ ''Uncaught SyntaxError: Unexpected end of input'')
   \<and> CHR 0x0A \<in> set (snd (capture_exception (Some 1) syntax_error))
   \<and> capture_exception (Some 1) empty_thrown = (True, [])
   \<and> capture_exception (Some 1) nothing_thrown = (False, ''V8 execution failed'')"
  using capture_exception_message [of "Some 1" syntax_error]
    capture_exception_message [of "Some 1" empty_thrown]
    capture_exception_message [of "Some 1" nothing_thrown]
  by (simp add: syntax_error_def empty_thrown_def nothing_thrown_def first_line_def
        diagnostic_def capture_exception_def newline_def)

text \<open>
  A script that throws while \<^verbatim>\<open>shim_context_eval\<close> runs it: the call fails and the
  error slot holds the captured message.
\<close>

lemma eval_reports_thrown_exception:
  assumes "ContextWrapper_isolate c \<noteq> None" and "um_find (cache c) s = None"
    and "Compile e s = None" and "RunScript e s (context c) = (Inl tc, g)" and "malloc e"
  shows "status (shim_context_eval e (Some c) (Some s) rs (Some p)) = 0
    \<and> error_out (shim_context_eval e (Some c) (Some s) rs (Some p))
        = Some (Some (snd (capture_exception (ContextWrapper_isolate c) tc)))"
  using assms
  by (simp add: shim_context_eval_def ensure_context_valid eval_run_def failure_def
        assign_error_value clear_slot_def ContextWrapper_isolate_def Let_def)

section \<open>Running a compiled script\<close>

text \<open>
  C8, as stated, fails. Where \<^verbatim>\<open>std::malloc\<close> returns null, a script of isolate B run
  against a context of isolate A is refused with status 0, and the error slot the
  caller passed holds null: the call returns no error string.
\<close>

theorem script_run_rejects_without_message:
  "\<not> malloc no_memory_engine
   \<and> ContextWrapper_isolate fresh_context \<noteq> isolate (script_isolate_wrapper script_on_B)
   \<and> shim_script_run no_memory_engine (Some script_on_B) (Some fresh_context)
        (Some None) (Some None) =
       \<lparr>status = 0, result_out = Some None, error_out = Some None,
        context_after = Some fresh_context, events = []\<rparr>"
  by (simp add: shim_script_run_def ensure_script_def ensure_context_def failure_def
        assign_error_value clear_slot_def script_on_B_def fresh_context_def
        ContextWrapper_isolate_def isolate_A_def isolate_B_def no_memory_engine_def
        sample_engine_def Let_def)

text \<open>
  C8, amended. A script whose handle is valid, run against a valid context of another
  isolate, is refused: the status is 0, the result slot is cleared, nothing is bound
  or run, and the context, its cache included, is as before. The error slot, when the
  caller gave one, holds the message when the copy of it could be allocated, and null
  when it could not.
\<close>

theorem script_run_rejects_other_isolate:
  assumes "script sw \<noteq> None"
    and "ContextWrapper_isolate c \<noteq> None"
    and "ContextWrapper_isolate c \<noteq> isolate (script_isolate_wrapper sw)"
  shows "shim_script_run e (Some sw) (Some c) result_slot error_slot =
           \<lparr>status = 0, result_out = clear_slot result_slot,
            error_out = (case error_slot of
                           None \<Rightarrow> None
                         | Some p \<Rightarrow>
                             Some (if malloc e
                                   then Some ''script and context belong to different isolates''
                                   else None)),
            context_after = Some c, events = []\<rparr>"
  using assms
  by (simp add: shim_script_run_def ensure_script_def ensure_context_def failure_def
        assign_error_value clear_slot_def split: option.splits)

theorem script_run_rejects_other_isolate_witness:
  "script script_on_B \<noteq> None
   \<and> ContextWrapper_isolate fresh_context \<noteq> None
   \<and> ContextWrapper_isolate fresh_context \<noteq> isolate (script_isolate_wrapper script_on_B)
   \<and> shim_script_run sample_engine (Some script_on_B) (Some fresh_context)
       (Some (Some ''stale'')) (Some None) =
     \<lparr>status = 0, result_out = Some None,
      error_out = Some (Some ''script and context belong to different isolates''),
      context_after = Some fresh_context, events = []\<rparr>"
  using script_run_rejects_other_isolate
          [of script_on_B fresh_context sample_engine "Some (Some ''stale'')" "Some None"]
  by (simp add: script_on_B_def fresh_context_def ContextWrapper_isolate_def isolate_A_def
        isolate_B_def sample_engine_def clear_slot_def)

section \<open>The legacy helper\<close>

text \<open>
  C9. \<^verbatim>\<open>shim_eval\<close> returns what \<^verbatim>\<open>shim_context_eval\<close> put in the result slot when that
  call succeeds and what it put in the error slot when it fails; the other slot is null
  in each case, so the returned pointer is the only string the call allocated and it
  passes to the caller. The return value carries no status: a successful result and an
  error message that are the same text are returned as the same value.
\<close>

theorem shim_eval_result_or_error:
  "(status (shim_context_eval e h src (Some None) (Some None)) = 1 \<longrightarrow>
      fst (shim_eval e h src) = slot_value (result_out (shim_context_eval e h src (Some None) (Some None)))
      \<and> error_out (shim_context_eval e h src (Some None) (Some None)) = Some None)
   \<and> (status (shim_context_eval e h src (Some None) (Some None)) = 0 \<longrightarrow>
      fst (shim_eval e h src) = slot_value (error_out (shim_context_eval e h src (Some None) (Some None)))
      \<and> result_out (shim_context_eval e h src (Some None) (Some None)) = Some None)
   \<and> (status (shim_context_eval e h src (Some None) (Some None)) = 1
       \<or> status (shim_context_eval e h src (Some None) (Some None)) = 0)
   \<and> snd (shim_eval e h src) = context_after (shim_context_eval e h src (Some None) (Some None))
   \<and> (status (shim_context_eval e h src (Some None) (Some None)) = 1
       \<and> status (shim_context_eval e h' src' (Some None) (Some None)) = 0
       \<and> slot_value (result_out (shim_context_eval e h src (Some None) (Some None)))
           = slot_value (error_out (shim_context_eval e h' src' (Some None) (Some None)))
       \<longrightarrow> fst (shim_eval e h src) = fst (shim_eval e h' src'))"
proof -
  have st: "status (shim_context_eval e h src rs es) = 0 \<or> status (shim_context_eval e h src rs es) = 1"
    for e h src rs es
    by (auto simp: shim_context_eval_def failure_def eval_run_def Let_def
         split: sum.splits option.splits UnboundScript.splits prod.splits)
  have f: "status (shim_context_eval e h src rs es) = 0 \<Longrightarrow> result_out (shim_context_eval e h src rs es) = clear_slot rs"
    for e h src rs es
    by (auto simp: shim_context_eval_def failure_def eval_run_def Let_def
         split: sum.splits option.splits UnboundScript.splits prod.splits if_splits)
  have s: "status (shim_context_eval e h src rs es) = 1 \<Longrightarrow> error_out (shim_context_eval e h src rs es) = clear_slot es"
    for e h src rs es
    by (auto simp: shim_context_eval_def failure_def eval_run_def Let_def
         split: sum.splits option.splits UnboundScript.splits prod.splits if_splits)
  show ?thesis
    using st [of e h src "Some None" "Some None"] f [of e h src "Some None" "Some None"]
      s [of e h src "Some None" "Some None"] st [of e h' src' "Some None" "Some None"]
    by (auto simp: shim_eval_def Let_def clear_slot_def)
qed

theorem shim_eval_result_or_error_witness:
  "status (shim_context_eval sample_engine (Some fresh_context) (Some ''source was null'') (Some None) (Some None)) = 1
   \<and> status (shim_context_eval sample_engine (Some fresh_context) None (Some None) (Some None)) = 0
   \<and> fst (shim_eval sample_engine (Some fresh_context) (Some ''source was null'')) = Some ''source was null''
   \<and> fst (shim_eval sample_engine (Some fresh_context) None) = Some ''source was null''"
  using shim_eval_result_or_error [of sample_engine "Some fresh_context" "Some ''source was null''" "Some fresh_context" None]
  by (simp add: eval_null_source eval_sample_source kMaxCacheableSourceLength_def slot_value_def
        shim_eval_def Let_def clear_slot_def prevent_extensions_def)

section \<open>Out-parameters\<close>

lemma populated_assign:
  "es \<noteq> None \<Longrightarrow> populated e (assign_error e (clear_slot es) m)"
  by (auto simp: populated_def assign_error_value clear_slot_def holds_string_def
        split: option.splits)

lemma failure_one_side:
  "one_side_populated e rs es (failure e (clear_slot rs) (clear_slot es) m h evs)"
  by (auto simp: one_side_populated_def failure_def populated_assign)
     (simp add: assign_error_def clear_slot_def)

lemma set_result_populated:
  "set_result e isol (clear_slot rs) v g = (slot, g1) \<Longrightarrow>
     (if rs = None then slot = None else populated e slot)"
  by (auto simp: set_result_def clear_slot_def populated_def holds_string_def value_to_utf8_def
        copy_std_string_def copy_string_def split: option.splits prod.splits if_splits)

lemma success_one_side:
  "set_result e isol (clear_slot rs) v g = (slot, g1) \<Longrightarrow>
     one_side_populated e rs es
       \<lparr>status = 1, result_out = slot,
        error_out = clear_slot es, context_after = h, events = evs\<rparr>"
  using set_result_populated [of e isol rs v g slot g1]
  by (simp add: one_side_populated_def)

lemma eval_run_one_side:
  "one_side_populated e rs es (eval_run e (clear_slot rs) (clear_slot es) u c evs)"
  by (simp add: eval_run_def failure_one_side success_one_side split: prod.splits sum.splits)

lemma eval_one_side:
  "one_side_populated e rs es (shim_context_eval e h src rs es)"
  by (simp add: shim_context_eval_def Let_def failure_one_side eval_run_one_side
       split: sum.splits option.splits UnboundScript.splits)

lemma script_run_one_side:
  "one_side_populated e rs es (shim_script_run e sh h rs es)"
  by (simp add: shim_script_run_def Let_def failure_one_side success_one_side
       split: sum.splits option.splits UnboundScript.splits prod.splits)

lemma call_function_one_side:
  "one_side_populated e rs es (shim_context_call_function e h fn args rs es)"
  by (simp add: shim_context_call_function_def Let_def failure_one_side success_one_side
       split: sum.splits option.splits callable.splits prod.splits)

lemma compile_one_side:
  "(compiled_script (shim_compile_script e ih src es) = None \<longrightarrow>
        (if es = None then compile_error_out (shim_compile_script e ih src es) = None
         else populated e (compile_error_out (shim_compile_script e ih src es))))
     \<and> (compiled_script (shim_compile_script e ih src es) \<noteq> None \<longrightarrow>
        compile_error_out (shim_compile_script e ih src es) = clear_slot es)"
  by (auto simp: shim_compile_script_def Let_def populated_assign
       split: sum.splits option.splits)
     (simp_all add: assign_error_def clear_slot_def)

lemma eval_clears_first:
  "shim_context_eval e h src rs es = shim_context_eval e h src (clear_slot rs) (clear_slot es)"
  by (simp add: shim_context_eval_def clear_slot_idem)

lemma script_run_clears_first:
  "shim_script_run e sh h rs es = shim_script_run e sh h (clear_slot rs) (clear_slot es)"
  by (simp add: shim_script_run_def clear_slot_idem)

lemma call_function_clears_first:
  "shim_context_call_function e h fn args rs es = shim_context_call_function e h fn args (clear_slot rs) (clear_slot es)"
  by (simp add: shim_context_call_function_def clear_slot_idem)

lemma compile_clears_first:
  "shim_compile_script e ih src es = shim_compile_script e ih src (clear_slot es)"
  by (simp add: shim_compile_script_def clear_slot_idem)

text \<open>
  C10, as stated, fails. Where \<^verbatim>\<open>std::malloc\<close> returns null, an evaluation with a null
  source fails, and the error slot the caller passed holds null, not an error string:
  neither side is populated.
\<close>

theorem failure_leaves_error_slot_null:
  "\<not> malloc no_memory_engine
   \<and> shim_context_eval no_memory_engine (Some fresh_context) None (Some None) (Some None) =
       \<lparr>status = 0, result_out = Some None, error_out = Some None,
        context_after = Some fresh_context, events = []\<rparr>
   \<and> \<not> holds_string
          (error_out (shim_context_eval no_memory_engine (Some fresh_context) None
                        (Some None) (Some None)))"
  by (simp add: shim_context_eval_def ensure_context_valid fresh_valid failure_def
        assign_error_value clear_slot_def no_memory_engine_def sample_engine_def
        holds_string_def)

text \<open>
  C10, amended. \<^verbatim>\<open>shim_context_eval\<close>, \<^verbatim>\<open>shim_script_run\<close> and
  \<^verbatim>\<open>shim_context_call_function\<close> keep the discipline above, and \<^verbatim>\<open>shim_compile_script\<close>,
  whose result is the returned handle, keeps it for its error slot: the slot that is
  to be populated holds a string when the copy could be allocated and null when it
  could not. Each of the four starts by clearing the slots it was given: what they held
  before the call has no effect on anything the call returns.
\<close>

theorem out_slots_one_side_populated:
  "one_side_populated e rs es (shim_context_eval e h src rs es)
    \<and> one_side_populated e rs es (shim_script_run e sh h rs es)
    \<and> one_side_populated e rs es (shim_context_call_function e h fn args rs es)
    \<and> (compiled_script (shim_compile_script e ih src es) = None \<longrightarrow>
          (if es = None then compile_error_out (shim_compile_script e ih src es) = None
           else populated e (compile_error_out (shim_compile_script e ih src es))))
    \<and> (compiled_script (shim_compile_script e ih src es) \<noteq> None \<longrightarrow>
          compile_error_out (shim_compile_script e ih src es) = clear_slot es)
    \<and> shim_context_eval e h src rs es = shim_context_eval e h src (clear_slot rs) (clear_slot es)
    \<and> shim_script_run e sh h rs es = shim_script_run e sh h (clear_slot rs) (clear_slot es)
    \<and> shim_context_call_function e h fn args rs es
        = shim_context_call_function e h fn args (clear_slot rs) (clear_slot es)
    \<and> shim_compile_script e ih src es = shim_compile_script e ih src (clear_slot es)"
proof (intro conjI)
  show "one_side_populated e rs es (shim_context_eval e h src rs es)"
    by (rule eval_one_side)
  show "one_side_populated e rs es (shim_script_run e sh h rs es)"
    by (rule script_run_one_side)
  show "one_side_populated e rs es (shim_context_call_function e h fn args rs es)"
    by (rule call_function_one_side)
  show "compiled_script (shim_compile_script e ih src es) = None \<longrightarrow>
          (if es = None then compile_error_out (shim_compile_script e ih src es) = None
           else populated e (compile_error_out (shim_compile_script e ih src es)))"
    by (rule compile_one_side [THEN conjunct1])
  show "compiled_script (shim_compile_script e ih src es) \<noteq> None \<longrightarrow>
          compile_error_out (shim_compile_script e ih src es) = clear_slot es"
    by (rule compile_one_side [THEN conjunct2])
  show "shim_context_eval e h src rs es = shim_context_eval e h src (clear_slot rs) (clear_slot es)"
    by (rule eval_clears_first)
  show "shim_script_run e sh h rs es = shim_script_run e sh h (clear_slot rs) (clear_slot es)"
    by (rule script_run_clears_first)
  show "shim_context_call_function e h fn args rs es
        = shim_context_call_function e h fn args (clear_slot rs) (clear_slot es)"
    by (rule call_function_clears_first)
  show "shim_compile_script e ih src es = shim_compile_script e ih src (clear_slot es)"
    by (rule compile_clears_first)
qed

theorem out_slots_one_side_populated_witness:
  "malloc sample_engine
   \<and> shim_context_eval sample_engine (Some fresh_context) None (Some (Some ''stale'')) (Some (Some ''old''))
       = \<lparr>status = 0, result_out = Some None, error_out = Some (Some ''source was null''),
          context_after = Some fresh_context, events = []\<rparr>
   \<and> one_side_populated sample_engine (Some (Some ''stale'')) (Some (Some ''old''))
        (shim_context_eval sample_engine (Some fresh_context) None (Some (Some ''stale'')) (Some (Some ''old'')))
   \<and> status (shim_context_eval sample_engine (Some fresh_context) (Some ''1'') (Some (Some ''stale'')) (Some (Some ''old''))) = 1
   \<and> error_out (shim_context_eval sample_engine (Some fresh_context) (Some ''1'') (Some (Some ''stale'')) (Some (Some ''old''))) = Some None
   \<and> one_side_populated no_memory_engine (Some None) (Some None)
        (shim_context_eval no_memory_engine (Some fresh_context) None (Some None) (Some None))"
  using out_slots_one_side_populated
          [of sample_engine "Some (Some ''stale'')" "Some (Some ''old'')" "Some fresh_context" None]
    out_slots_one_side_populated
          [of sample_engine "Some (Some ''stale'')" "Some (Some ''old'')" "Some fresh_context"
              "Some ''1''"]
    out_slots_one_side_populated
          [of no_memory_engine "Some None" "Some None" "Some fresh_context" None]
  by (simp add: eval_null_source eval_sample_source kMaxCacheableSourceLength_def clear_slot_def
        prevent_extensions_def)
    (simp add: sample_engine_def)

end
